theory Spec2Isabelle
  imports Complex_Main
begin

section \<open>Numbers of the source\<close>

text \<open>
  The TypeScript sources compute on JavaScript numbers. Counters, points and percentages
  are integers there and are modelled as \<open>int\<close>; a quotient of two such integers is
  modelled as an exact rational. \<open>Math.round\<close> rounds to the nearest integer, a tie going
  up; \<open>Math.floor\<close> is \<open>floor\<close>. The one product of possibly fractional numbers, in
  \<open>applyBoost\<close>, is modelled on IEEE doubles (below).
\<close>

definition Math_round :: "rat \<Rightarrow> int" where
  "Math_round x = \<lfloor>x + 1 / 2\<rfloor>"

text \<open>
  \<open>Number(v || 0)\<close> on an optional numeric field: a missing field and the number 0 both
  give 0, any other number is itself.
\<close>

definition num_or0 :: "int option \<Rightarrow> int" where
  "num_or0 v = (case v of None \<Rightarrow> 0 | Some n \<Rightarrow> n)"

subsection \<open>IEEE doubles\<close>

text \<open>
  A finite double is \<open>mantissa * 2 ^ exponent\<close> for two integers; every double has such a
  form with a mantissa below \<open>2 ^ 53\<close> in absolute value. The product of two doubles is the
  exact product rounded to 53 significant bits, to the nearest and to the even mantissa
  on a tie. The limits of the exponent (overflow to \<open>Infinity\<close>, gradual underflow),
  \<open>NaN\<close>, the infinities and the sign of zero are outside the model.
\<close>

datatype double = Double (mantissa: int) (exponent: int)

definition valueOf :: "double \<Rightarrow> rat" where
  "valueOf d = of_int (mantissa d) * power_int 2 (exponent d)"

text \<open>The number of binary digits of a natural number.\<close>

fun bitLength :: "nat \<Rightarrow> nat" where
  "bitLength n = (if n = 0 then 0 else Suc (bitLength (n div 2)))"

text \<open>
  Rounding \<open>m * 2 ^ e\<close> to a double: a mantissa of more than 53 digits loses its \<open>k\<close> lowest
  digits, and the quotient goes up when the remainder is above one half of \<open>2 ^ k\<close>, or
  equal to it with an odd quotient.
\<close>

definition roundToDouble :: "int \<Rightarrow> int \<Rightarrow> double" where
  "roundToDouble m e =
     (let n = bitLength (nat \<bar>m\<bar>) in
      if n \<le> 53 then Double m e
      else
        (let k = n - 53;
             q = \<bar>m\<bar> div 2 ^ k;
             r = \<bar>m\<bar> mod 2 ^ k;
             half = 2 ^ (k - 1);
             q' = (if r > half \<or> (r = half \<and> odd q) then q + 1 else q)
         in Double (sgn m * q') (e + int k)))"

text \<open>\<open>a * b\<close> on doubles.\<close>

definition double_times :: "double \<Rightarrow> double \<Rightarrow> double" where
  "double_times a b = roundToDouble (mantissa a * mantissa b) (exponent a + exponent b)"

text \<open>\<open>d > 0\<close> on a double.\<close>

definition double_gt0 :: "double \<Rightarrow> bool" where
  "double_gt0 d = (mantissa d > 0)"

text \<open>
  \<open>Math.round\<close> of a double: the nearest integer, a tie going up, which is a double
  again.
\<close>

definition Math_round_double :: "double \<Rightarrow> double" where
  "Math_round_double d =
     Double (if exponent d \<ge> 0 then mantissa d * 2 ^ nat (exponent d)
             else (2 * mantissa d + 2 ^ nat (- exponent d)) div (2 * 2 ^ nat (- exponent d))) 0"

section \<open>Scoring (src/utils/pure-scoringUtils.ts)\<close>

datatype OutcomeCode =
  OUT | O1B | O2B | O3B | HR | BB | HBP | K | GIDP | FC | RBI | R

record ScoreBreakdown =
  singles :: int
  doubles :: int
  triples :: int
  hr_solo :: int
  hr_2r :: int
  hr_3r :: int
  hr_gs :: int
  walks :: int
  hbp :: int
  rbi_non_hr :: int
  runs_non_hr :: int
  strikeouts :: int
  gidp :: int
  fielders_choice :: int

text \<open>The point table \<open>PTS\<close>, one constant per entry.\<close>

definition PTS_SINGLE :: int where "PTS_SINGLE = 10"
definition PTS_DOUBLE :: int where "PTS_DOUBLE = 20"
definition PTS_TRIPLE :: int where "PTS_TRIPLE = 30"
definition PTS_HR_SOLO :: int where "PTS_HR_SOLO = 40"
definition PTS_HR_2R :: int where "PTS_HR_2R = 45"
definition PTS_HR_3R :: int where "PTS_HR_3R = 50"
definition PTS_HR_GS :: int where "PTS_HR_GS = 80"
definition PTS_WALK :: int where "PTS_WALK = 5"
definition PTS_HBP :: int where "PTS_HBP = 5"
definition PTS_RBI_NON_HR :: int where "PTS_RBI_NON_HR = 15"
definition PTS_RUN_NON_HR :: int where "PTS_RUN_NON_HR = 15"
definition PTS_K :: int where "PTS_K = - 5"
definition PTS_GIDP :: int where "PTS_GIDP = - 10"
definition PTS_FC :: int where "PTS_FC = 2"

lemmas PTS_defs =
  PTS_SINGLE_def PTS_DOUBLE_def PTS_TRIPLE_def PTS_HR_SOLO_def PTS_HR_2R_def
  PTS_HR_3R_def PTS_HR_GS_def PTS_WALK_def PTS_HBP_def PTS_RBI_NON_HR_def
  PTS_RUN_NON_HR_def PTS_K_def PTS_GIDP_def PTS_FC_def

text \<open>
  \<open>applyBoost(basePoints, boostPercent)\<close>: both arguments are numbers, the base points
  and the factor (the tests pass 1.5, the application passes the stored percent).
\<close>

definition applyBoost :: "double \<Rightarrow> double \<Rightarrow> double" where
  "applyBoost basePoints boostPercent =
     (if double_gt0 basePoints then Math_round_double (double_times basePoints boostPercent)
      else basePoints)"

definition calculateBasePoints :: "ScoreBreakdown \<Rightarrow> int" where
  "calculateBasePoints breakdown =
     singles breakdown * PTS_SINGLE +
     doubles breakdown * PTS_DOUBLE +
     triples breakdown * PTS_TRIPLE +
     hr_solo breakdown * PTS_HR_SOLO +
     hr_2r breakdown * PTS_HR_2R +
     hr_3r breakdown * PTS_HR_3R +
     hr_gs breakdown * PTS_HR_GS +
     walks breakdown * PTS_WALK +
     hbp breakdown * PTS_HBP +
     rbi_non_hr breakdown * PTS_RBI_NON_HR +
     runs_non_hr breakdown * PTS_RUN_NON_HR +
     strikeouts breakdown * PTS_K +
     gidp breakdown * PTS_GIDP +
     fielders_choice breakdown * PTS_FC"

section \<open>Score from the live feed (src/api/index.ts)\<close>

text \<open>
  The batting statistics of one player as the feed delivers them: every counter may be
  missing, and the whole object may be missing (\<open>stats?.hits\<close>).
\<close>

record BattingStats =
  hits :: "int option"
  st_doubles :: "int option"
  st_triples :: "int option"
  homeRuns :: "int option"
  baseOnBalls :: "int option"
  strikeOuts :: "int option"
  groundIntoDoublePlay :: "int option"
  rbi :: "int option"
  runs :: "int option"

definition stat :: "(BattingStats \<Rightarrow> int option) \<Rightarrow> BattingStats option \<Rightarrow> int" where
  "stat field stats = (case stats of None \<Rightarrow> 0 | Some s \<Rightarrow> num_or0 (field s))"

record ScoreResult =
  breakdown :: ScoreBreakdown
  points :: int
  outcomes :: "OutcomeCode list"

definition emptyBreakdown :: ScoreBreakdown where
  "emptyBreakdown =
     \<lparr> singles = 0, doubles = 0, triples = 0, hr_solo = 0, hr_2r = 0, hr_3r = 0,
       hr_gs = 0, walks = 0, hbp = 0, rbi_non_hr = 0, runs_non_hr = 0, strikeouts = 0,
       gidp = 0, fielders_choice = 0 \<rparr>"

text \<open>
  The home-run classification: when there is at least one home run, all of them go into
  the one class chosen by the average \<open>totalRBIs / totalHRs\<close>.
\<close>

definition classifyHRs :: "int \<Rightarrow> int \<Rightarrow> ScoreBreakdown \<Rightarrow> ScoreBreakdown" where
  "classifyHRs totalHRs totalRBIs b =
     (if totalHRs > 0 then
        (let avgRBIPerHR = (of_int totalRBIs :: rat) / of_int totalHRs in
         if avgRBIPerHR \<ge> 7 / 2 then b\<lparr>hr_gs := totalHRs\<rparr>
         else if avgRBIPerHR \<ge> 5 / 2 then b\<lparr>hr_3r := totalHRs\<rparr>
         else if avgRBIPerHR \<ge> 3 / 2 then b\<lparr>hr_2r := totalHRs\<rparr>
         else b\<lparr>hr_solo := totalHRs\<rparr>)
      else b)"

text \<open>
  A \<open>for (let i = 0; i < n; i++) outcomes.push(c)\<close> loop appends \<open>n\<close> copies of \<open>c\<close>, and
  none when \<open>n\<close> is not positive.
\<close>

definition pushTimes :: "int \<Rightarrow> OutcomeCode \<Rightarrow> OutcomeCode list \<Rightarrow> OutcomeCode list" where
  "pushTimes n c out = out @ replicate (nat n) c"

text \<open>\<open>buildScoreFromStatsAndPlays(stats, plays)\<close>; the plays are received and never read.\<close>

definition buildScoreFromStatsAndPlays :: "BattingStats option \<Rightarrow> 'play list \<Rightarrow> ScoreResult" where
  "buildScoreFromStatsAndPlays stats plays =
     (let b0 = emptyBreakdown;
          b1 = b0\<lparr>singles := stat hits stats - stat st_doubles stats - stat st_triples stats
                               - stat homeRuns stats\<rparr>;
          b2 = b1\<lparr>doubles := stat st_doubles stats\<rparr>;
          b3 = b2\<lparr>triples := stat st_triples stats\<rparr>;
          b4 = b3\<lparr>walks := stat baseOnBalls stats\<rparr>;
          b5 = b4\<lparr>strikeouts := stat strikeOuts stats\<rparr>;
          b6 = b5\<lparr>gidp := stat groundIntoDoublePlay stats\<rparr>;
          totalHRs = stat homeRuns stats;
          totalRBIs = stat rbi stats;
          totalRuns = stat runs stats;
          b7 = classifyHRs totalHRs totalRBIs b6;
          hrRBIs = totalHRs * (hr_gs b7 * 4 + hr_3r b7 * 3 + hr_2r b7 * 2 + hr_solo b7 * 1);
          b8 = b7\<lparr>rbi_non_hr := max 0 (totalRBIs - hrRBIs)\<rparr>;
          b9 = b8\<lparr>runs_non_hr := totalRuns\<rparr>;
          out = pushTimes (gidp b9) GIDP
                 (pushTimes (strikeouts b9) K
                 (pushTimes (walks b9) BB
                 (pushTimes (hr_solo b9 + hr_2r b9 + hr_3r b9 + hr_gs b9) HR
                 (pushTimes (triples b9) O3B
                 (pushTimes (doubles b9) O2B
                 (pushTimes (singles b9) O1B []))))))
      in \<lparr> breakdown = b9, points = calculateBasePoints b9, outcomes = out \<rparr>)"

text \<open>
  The reading of the spec for the non-HR RBI: the RBI credited to the classified home runs
  are 4 per grand slam, 3 per 3-run, 2 per 2-run and 1 per solo home run.
\<close>

definition creditedHRRBIs :: "ScoreBreakdown \<Rightarrow> int" where
  "creditedHRRBIs b = 4 * hr_gs b + 3 * hr_3r b + 2 * hr_2r b + 1 * hr_solo b"

section \<open>Booster allocation (src/utils/pure-generalUtils.ts)\<close>

text \<open>
  \<open>Record<number, number>\<close> is a JavaScript object. Its keys are the batter ids, and the
  key \<open>undefined\<close> that the source reads and writes when \<open>others[0]\<close> or \<open>others[1]\<close>
  does not exist. The percentages stored are integers.
\<close>

datatype boosterKey = Num int | Undefined

type_synonym boosters = "boosterKey \<rightharpoonup> int"

text \<open>\<open>m[k] ?? 0\<close>\<close>

definition getOr0 :: "boosters \<Rightarrow> boosterKey \<Rightarrow> int" where
  "getOr0 m k = (case m k of None \<Rightarrow> 0 | Some v \<Rightarrow> v)"

text \<open>\<open>xs[i]\<close> as an object key: \<open>undefined\<close> beyond the end of the array.\<close>

definition keyAt :: "int list \<Rightarrow> nat \<Rightarrow> boosterKey" where
  "keyAt xs i = (if i < length xs then Num (xs ! i) else Undefined)"

text \<open>
  \<open>normalizeBoostersToHundred(targetId, rawValue, pickedIds, currentBoosters)\<close>. The local
  object \<open>cur\<close> of the source is written and never read, so it has no counterpart here. The
  three assignments to \<open>next\<close> happen in the source's order: a later one overwrites an
  earlier one on the same key.
\<close>

definition normalizeBoostersToHundred :: "int \<Rightarrow> rat \<Rightarrow> int list \<Rightarrow> boosters \<Rightarrow> boosters" where
  "normalizeBoostersToHundred targetId rawValue pickedIds currentBoosters =
     (case pickedIds of
        [a, b, c] \<Rightarrow>
          (let ids = [a, b, c];
               clamped = max 0 (min 100 (Math_round rawValue));
               others = filter (\<lambda>i. i \<noteq> targetId) ids;
               remaining = 100 - clamped;
               otherSum = getOr0 currentBoosters (keyAt others 0)
                          + getOr0 currentBoosters (keyAt others 1);
               newOther1 =
                 (if otherSum \<le> 0 then \<lfloor>(of_int remaining :: rat) / 2\<rfloor>
                  else Math_round (of_int (remaining * getOr0 currentBoosters (keyAt others 0))
                                   / of_int otherSum));
               newOther2 = remaining - newOther1;
               next1 = currentBoosters(Num targetId \<mapsto> clamped);
               next2 = next1(keyAt others 0 \<mapsto> newOther1);
               next3 = next2(keyAt others 1 \<mapsto> newOther2)
           in next3)
      | _ \<Rightarrow> currentBoosters)"

text \<open>
  \<open>validateBoostersComplete(pickedIds, boosters)\<close>; every stored integer is finite, so
  \<open>Number.isFinite(boosters[id])\<close> asks that the entry exists.
\<close>

definition validateBoostersComplete :: "int list \<Rightarrow> boosters \<Rightarrow> bool" where
  "validateBoostersComplete pickedIds bs =
     (let boosterUsed = fold (\<lambda>i s. s + getOr0 bs (Num i)) pickedIds 0
      in length pickedIds = 3 \<and> boosterUsed = 100
         \<and> list_all (\<lambda>i. bs (Num i) \<noteq> None) pickedIds)"

text \<open>
  The value the source gives \<open>newOther1\<close>, as a function of what remains and of the current
  values \<open>x\<close> and \<open>y\<close> of the two other picks; the lemmas below are stated with it.
\<close>

definition firstShare :: "int \<Rightarrow> int \<Rightarrow> int \<Rightarrow> int" where
  "firstShare remaining x y =
     (if x + y \<le> 0 then \<lfloor>(of_int remaining :: rat) / 2\<rfloor>
      else Math_round (of_int (remaining * x) / of_int (x + y)))"

section \<open>Dates and the drafting window (src/utils/pure-dateUtils.ts)\<close>

text \<open>
  A JavaScript \<open>Date\<close> is modelled by its time value in milliseconds, \<open>None\<close> standing for
  an Invalid Date (time value \<open>NaN\<close>, which makes every comparison false). The parser of
  \<open>new Date(string)\<close> belongs to the JavaScript library and is a parameter \<open>parseDate\<close>;
  so is the clock read by \<open>new Date()\<close>. Time values are unbounded integers: the limit of
  the \<open>Date\<close> range (about 275 thousand years either side of 1970) is outside the model.
\<close>

type_synonym jsDate = "int option"

text \<open>
  \<open>isDraftingAllowed(gameDate?, currentTime?)\<close>. Nothing inside the \<open>try\<close> block can throw, so
  the \<open>catch\<close> branch has no counterpart.
\<close>

definition isDraftingAllowed ::
  "(string \<Rightarrow> jsDate) \<Rightarrow> int \<Rightarrow> string option \<Rightarrow> jsDate option \<Rightarrow> bool" where
  "isDraftingAllowed parseDate clock gameDate currentTime =
     (case gameDate of
        None \<Rightarrow> True
      | Some s \<Rightarrow>
          if s = [] then True
          else (case parseDate s of
                  None \<Rightarrow> True
                | Some gameStart \<Rightarrow>
                    (let now = (case currentTime of None \<Rightarrow> Some clock | Some d \<Rightarrow> d);
                         fiveMinutesAfterStart = gameStart + 5 * 60 * 1000
                     in case now of None \<Rightarrow> False | Some n \<Rightarrow> n < fiveMinutesAfterStart)))"

section \<open>Application data (src/types/index.ts)\<close>

text \<open>
  Field names carry a prefix for their record where the source uses one name in several
  interfaces (\<open>id\<close>, \<open>name\<close>, \<open>picks\<close>, \<open>points\<close>, ...). An optional field is an \<open>option\<close>.
\<close>

datatype Phase = Setup | Draft | Play | Live | Results

datatype Side = Home | Away

record Batter =
  b_id :: int
  b_name :: string
  b_mlbId :: "int option"

record PlayerPickResult =
  r_batterId :: int
  r_outcomes :: "OutcomeCode list"
  r_points :: int
  r_breakdown :: "ScoreBreakdown option"
  r_boost :: "int option"
  r_basePoints :: "int option"

record Player =
  p_id :: int
  p_name :: string
  p_picks :: "int list"
  p_results :: "PlayerPickResult list option"
  p_score :: "int option"

record LineupInfo =
  l_gamePk :: int
  l_opponent :: string
  l_side :: Side
  l_firstPitchLocal :: "string option"
  l_gameDate :: "string option"

record AppState =
  s_phase :: Phase
  s_batters :: "Batter list"
  s_players :: "Player list"
  s_boosters :: boosters
  s_lineupInfo :: "LineupInfo option"
  s_gameState :: string
  s_inningStr :: string
  s_previousScores :: "int \<rightharpoonup> int"
  s_previousTotalScore :: int
  s_savedAt :: int
  s_scoreViewingAllowed :: "bool option"

record HistoricalPick =
  k_batterId :: int
  k_batterName :: string
  k_mlbId :: "int option"
  k_points :: int
  k_basePoints :: int
  k_boost :: int
  k_breakdown :: "ScoreBreakdown option"

record HistoricalPlayer =
  hp_name :: string
  hp_picks :: "HistoricalPick list"
  hp_totalScore :: int

record HistoricalGame =
  g_id :: string
  g_date :: string
  g_gamePk :: int
  g_opponent :: string
  g_side :: Side
  g_finalScore :: "(int \<times> int) option"
  g_gameStatus :: string
  g_players :: "HistoricalPlayer list"
  g_completedAt :: int

text \<open>
  The statistics. \<open>averageScore\<close> is a quotient and may be \<open>NaN\<close> (0 / 0, when no game has
  a player), which is \<open>None\<close> here.
\<close>

record HistoryStats =
  totalGames :: nat
  averageScore :: "rat option"
  bestScore :: int
  bestGame :: "string option"
  favoritePlayer :: "string option"

record HistoricalData =
  d_games :: "HistoricalGame list"
  d_stats :: HistoryStats
  d_lastUpdated :: int

section \<open>Restoring the application state (src/storage/index.ts)\<close>

text \<open>
  The persistence store holds text under the key \<open>pick3_app_state\<close>: \<open>None\<close> when the key is
  missing (or the read fails, which the wrapper turns into \<open>null\<close>). The store is taken to
  perform every operation it is asked for. \<open>JSON.parse\<close> is a parameter: \<open>None\<close> when it
  throws (or yields \<open>null\<close>, whose first property access throws into the same \<open>catch\<close>),
  the typed snapshot otherwise; a text that parses to anything else is outside the model.

  The two network questions asked by \<open>loadAppState\<close> are inputs of the model: the answer
  of \<open>isScoreViewingAllowed()\<close>, and the schedule fetched for today, which may fail (any
  exception inside the inner \<open>try\<close>) or may lack the list of games.
\<close>

record ScheduleGame =
  abstractGameState :: string
  sg_gameDate :: jsDate

datatype ScheduleFetch = FetchFailed | Fetched "ScheduleGame list option"

definition isActiveOrRecent :: "int \<Rightarrow> ScheduleGame \<Rightarrow> bool" where
  "isActiveOrRecent now game =
     (let gameStatus = abstractGameState game in
      if gameStatus = ''Live'' \<or> gameStatus = ''Preview'' then True
      else if gameStatus = ''Final'' then
        (case sg_gameDate game of
           None \<Rightarrow> False
         | Some t \<Rightarrow> (let gameEndTime = t + 3 * 60 * 60 * 1000
                      in now - gameEndTime \<le> 30 * 60 * 1000))
      else False)"

text \<open>
  \<open>loadAppState()\<close> returns the restored state (\<open>None\<close> for \<open>null\<close>) together with the
  content of the store after the call. Every \<open>return\<close> and every caught exception of the
  source is a branch.
\<close>

definition loadAppState ::
  "(string \<Rightarrow> AppState option) \<Rightarrow> int \<Rightarrow> bool \<Rightarrow> ScheduleFetch \<Rightarrow> string option
     \<Rightarrow> AppState option \<times> string option" where
  "loadAppState JSON_parse now scoreViewingStillAllowed schedule store =
     (case store of
        None \<Rightarrow> (None, store)
      | Some savedState \<Rightarrow>
          if savedState = [] then (None, store)
          else (case JSON_parse savedState of
                  None \<Rightarrow> (None, store)
                | Some state \<Rightarrow>
                    (let maxAge = 24 * 60 * 60 * 1000 in
                     if now - s_savedAt state > maxAge then (None, None)
                     else
                       (let hasDrafted =
                              (case s_players state of
                                 [] \<Rightarrow> False
                               | p # _ \<Rightarrow> length (p_picks p) > 0);
                            isInResultsPhase =
                              (s_phase state = Results \<or> s_phase state = Live)
                        in if hasDrafted \<and> isInResultsPhase then
                             (if \<not> scoreViewingStillAllowed then (None, None)
                              else (Some state, store))
                           else
                             (case schedule of
                                FetchFailed \<Rightarrow> (Some state, store)
                              | Fetched gs \<Rightarrow>
                                  (let hasActiveOrRecentGames =
                                         (case gs of
                                            None \<Rightarrow> False
                                          | Some l \<Rightarrow> list_ex (isActiveOrRecent now) l)
                                   in if \<not> hasActiveOrRecentGames then (None, None)
                                      else (Some state, store)))))))"

section \<open>History (src/history/index.ts)\<close>

subsection \<open>Statistics\<close>

text \<open>
  The four variables that the \<open>forEach\<close> loops of \<open>updateHistoricalStats\<close> update.
  \<open>playerPickCounts\<close> is an object used as a dictionary; it is an association list in
  insertion order here, the order in which \<open>Object.entries\<close> lists names.
\<close>

record StatsScan =
  allPlayerScores :: "int list"
  scanBestScore :: int
  bestGameId :: "string option"
  playerPickCounts :: "(string \<times> int) list"

text \<open>\<open>playerPickCounts[playerName] = (playerPickCounts[playerName] || 0) + 1\<close>\<close>

fun countPick :: "string \<Rightarrow> (string \<times> int) list \<Rightarrow> (string \<times> int) list" where
  "countPick playerName [] = [(playerName, 0 + 1)]"
| "countPick playerName ((k, n) # rest) =
     (if k = playerName then (k, n + 1) # rest else (k, n) # countPick playerName rest)"

text \<open>The body of the inner loop, for one player of the game with id \<open>gameId\<close>.\<close>

definition scanPlayer :: "string \<Rightarrow> HistoricalPlayer \<Rightarrow> StatsScan \<Rightarrow> StatsScan" where
  "scanPlayer gameId player sc =
     (let sc1 = sc\<lparr>allPlayerScores := allPlayerScores sc @ [hp_totalScore player]\<rparr>;
          sc2 = (if hp_totalScore player > scanBestScore sc1
                 then sc1\<lparr>scanBestScore := hp_totalScore player, bestGameId := Some gameId\<rparr>
                 else sc1)
      in sc2\<lparr>playerPickCounts :=
               fold (\<lambda>pick. countPick (k_batterName pick)) (hp_picks player)
                 (playerPickCounts sc2)\<rparr>)"

definition scanGame :: "HistoricalGame \<Rightarrow> StatsScan \<Rightarrow> StatsScan" where
  "scanGame game sc = fold (scanPlayer (g_id game)) (g_players game) sc"

definition initialScan :: StatsScan where
  "initialScan =
     \<lparr> allPlayerScores = [], scanBestScore = 0, bestGameId = None, playerPickCounts = [] \<rparr>"

text \<open>The search for the most picked name: \<open>(favoritePlayer, maxPicks)\<close>, starting at 0.\<close>

definition favoriteOf :: "(string \<times> int) list \<Rightarrow> string option" where
  "favoriteOf counts =
     fst (fold (\<lambda>(playerName, count) (favorite, maxPicks).
                  if count > maxPicks then (Some playerName, count) else (favorite, maxPicks))
            counts (None, 0))"

definition emptyStats :: HistoryStats where
  "emptyStats =
     \<lparr> totalGames = 0, averageScore = Some 0, bestScore = 0, bestGame = None,
       favoritePlayer = None \<rparr>"

definition updateHistoricalStats :: "HistoricalData \<Rightarrow> HistoricalData" where
  "updateHistoricalStats data =
     (let gs = d_games data in
      if length gs = 0 then data\<lparr>d_stats := emptyStats\<rparr>
      else
        (let sc = fold scanGame gs initialScan;
             totalScore = fold (\<lambda>score sum. sum + score) (allPlayerScores sc) 0;
             average =
               (if length (allPlayerScores sc) = 0 then None
                else Some ((of_int totalScore :: rat) / of_nat (length (allPlayerScores sc))))
         in data\<lparr>d_stats :=
              \<lparr> totalGames = length gs,
                averageScore = map_option (\<lambda>a. of_int (Math_round (a * 10)) / 10) average,
                bestScore = scanBestScore sc,
                bestGame = bestGameId sc,
                favoritePlayer = favoriteOf (playerPickCounts sc) \<rparr>\<rparr>))"

text \<open>All total scores of a list of games, in the order of the iteration.\<close>

definition allTotals :: "HistoricalGame list \<Rightarrow> int list" where
  "allTotals gs = concat (map (\<lambda>g. map hp_totalScore (g_players g)) gs)"

text \<open>A game reaches the score \<open>m\<close> when one of its players has this total.\<close>

definition reaches :: "int \<Rightarrow> HistoricalGame \<Rightarrow> bool" where
  "reaches m g = list_ex (\<lambda>p. hp_totalScore p = m) (g_players g)"

subsection \<open>Loading, saving and adding a game\<close>

text \<open>
  The store holds JSON text under the key \<open>pick3_historical_data\<close>. The model keeps the
  value that \<open>loadHistoricalData\<close> reads from it: \<open>None\<close> when the key is missing, the text
  does not parse or the payload has no array \<open>games\<close>; the store is taken to perform every
  operation. \<open>Date.now()\<close> is the parameter \<open>now\<close>, one value for a whole call.
\<close>

type_synonym historyStore = "HistoricalData option"

definition createEmptyHistoricalData :: "int \<Rightarrow> HistoricalData" where
  "createEmptyHistoricalData now =
     \<lparr> d_games = [],
       d_stats = \<lparr> totalGames = 0, averageScore = Some 0, bestScore = 0, bestGame = None,
                   favoritePlayer = None \<rparr>,
       d_lastUpdated = now \<rparr>"

definition loadHistoricalData :: "int \<Rightarrow> historyStore \<Rightarrow> HistoricalData" where
  "loadHistoricalData now store =
     (case store of None \<Rightarrow> createEmptyHistoricalData now | Some parsed \<Rightarrow> parsed)"

definition saveHistoricalData :: "int \<Rightarrow> HistoricalData \<Rightarrow> historyStore" where
  "saveHistoricalData now data = Some (data\<lparr>d_lastUpdated := now\<rparr>)"

text \<open>A number inside a template literal: its decimal digits.\<close>

fun digitsOf :: "nat \<Rightarrow> string" where
  "digitsOf n =
     (if n < 10 then [''0123456789'' ! n]
      else digitsOf (n div 10) @ [''0123456789'' ! (n mod 10)])"

definition numberToString :: "int \<Rightarrow> string" where
  "numberToString n = (if n < 0 then CHR ''-'' # digitsOf (nat (- n)) else digitsOf (nat n))"

text \<open>
  The day of the game. \<open>isoDay s\<close> stands for \<open>new Date(s).toISOString().split('T')[0]\<close>:
  the calendar day, or \<open>None\<close> when \<open>s\<close> is not a date and \<open>toISOString\<close> throws. \<open>today\<close> is
  the same expression for \<open>new Date()\<close>.
\<close>

definition gameDay :: "(string \<Rightarrow> string option) \<Rightarrow> string \<Rightarrow> LineupInfo \<Rightarrow> string option" where
  "gameDay isoDay today lineupInfo =
     (case l_gameDate lineupInfo of
        None \<Rightarrow> Some today
      | Some s \<Rightarrow> if s = [] then Some today else isoDay s)"

definition gameIdOf :: "LineupInfo \<Rightarrow> string \<Rightarrow> string" where
  "gameIdOf lineupInfo gameDate = numberToString (l_gamePk lineupInfo) @ ''_'' @ gameDate"

text \<open>\<open>games.findIndex(p)\<close>, with \<open>None\<close> for -1.\<close>

fun findIndex :: "('a \<Rightarrow> bool) \<Rightarrow> 'a list \<Rightarrow> nat option" where
  "findIndex p [] = None"
| "findIndex p (x # xs) = (if p x then Some 0 else map_option Suc (findIndex p xs))"

definition toHistoricalPick :: "Batter list \<Rightarrow> PlayerPickResult \<Rightarrow> HistoricalPick" where
  "toHistoricalPick batters result =
     (let batter = find (\<lambda>b. b_id b = r_batterId result) batters in
      \<lparr> k_batterId = r_batterId result,
        k_batterName =
          (case batter of
             None \<Rightarrow> ''Batter '' @ numberToString (r_batterId result)
           | Some b \<Rightarrow> if b_name b = [] then ''Batter '' @ numberToString (r_batterId result)
                       else b_name b),
        k_mlbId = (case batter of None \<Rightarrow> None | Some b \<Rightarrow> b_mlbId b),
        k_points = r_points result,
        k_basePoints = num_or0 (r_basePoints result),
        k_boost = num_or0 (r_boost result),
        k_breakdown = r_breakdown result \<rparr>)"

definition toHistoricalPlayer :: "Batter list \<Rightarrow> Player \<Rightarrow> HistoricalPlayer" where
  "toHistoricalPlayer batters player =
     \<lparr> hp_name = p_name player,
       hp_picks =
         map (toHistoricalPick batters)
           (case p_results player of None \<Rightarrow> [] | Some rs \<Rightarrow> rs),
       hp_totalScore = num_or0 (p_score player) \<rparr>"

definition makeHistoricalGame ::
  "int \<Rightarrow> string \<Rightarrow> Player list \<Rightarrow> Batter list \<Rightarrow> LineupInfo \<Rightarrow> string
     \<Rightarrow> (int \<times> int) option \<Rightarrow> HistoricalGame" where
  "makeHistoricalGame now gameDate players batters lineupInfo gameStatus finalScore =
     \<lparr> g_id = gameIdOf lineupInfo gameDate,
       g_date = gameDate,
       g_gamePk = l_gamePk lineupInfo,
       g_opponent = l_opponent lineupInfo,
       g_side = l_side lineupInfo,
       g_finalScore = finalScore,
       g_gameStatus = gameStatus,
       g_players = map (toHistoricalPlayer batters) players,
       g_completedAt = now \<rparr>"

text \<open>Replace the entry found by \<open>findIndex\<close> in place, or push the game at the end.\<close>

definition upsertGame :: "HistoricalGame \<Rightarrow> HistoricalGame list \<Rightarrow> HistoricalGame list" where
  "upsertGame historicalGame gs =
     (case findIndex (\<lambda>g. g_id g = g_id historicalGame) gs of
        Some existingGameIndex \<Rightarrow> gs[existingGameIndex := historicalGame]
      | None \<Rightarrow> gs @ [historicalGame])"

text \<open>
  \<open>games.sort((a, b) => new Date(b.date).getTime() - new Date(a.date).getTime())\<close>: a stable
  sort, newest first. \<open>getTime d\<close> stands for \<open>new Date(d).getTime()\<close>; every date written
  by \<open>addGameToHistory\<close> is a calendar day and has a time value.
\<close>

definition sortNewestFirst :: "(string \<Rightarrow> int) \<Rightarrow> HistoricalGame list \<Rightarrow> HistoricalGame list" where
  "sortNewestFirst getTime gs = sort_key (\<lambda>g. - getTime (g_date g)) gs"

text \<open>
  \<open>addGameToHistory(players, batters, lineupInfo, gameStatus, finalScore?)\<close> as a function
  from the store before the call to the store after it. When the game date is not a date,
  \<open>toISOString\<close> throws inside the \<open>try\<close> block and nothing is written.
\<close>

definition addGameToHistory ::
  "(string \<Rightarrow> string option) \<Rightarrow> (string \<Rightarrow> int) \<Rightarrow> string \<Rightarrow> int
     \<Rightarrow> Player list \<Rightarrow> Batter list \<Rightarrow> LineupInfo \<Rightarrow> string \<Rightarrow> (int \<times> int) option
     \<Rightarrow> historyStore \<Rightarrow> historyStore" where
  "addGameToHistory isoDay getTime today now players batters lineupInfo gameStatus finalScore
       store =
     (let historicalData = loadHistoricalData now store in
      case gameDay isoDay today lineupInfo of
        None \<Rightarrow> store
      | Some gameDate \<Rightarrow>
          (let historicalGame =
                 makeHistoricalGame now gameDate players batters lineupInfo gameStatus
                   finalScore;
               games1 = upsertGame historicalGame (d_games historicalData);
               games2 = sortNewestFirst getTime games1;
               data2 = updateHistoricalStats (historicalData\<lparr>d_games := games2\<rparr>)
           in saveHistoricalData now data2))"

section \<open>Sample data\<close>

text \<open>
  The instant 2025-08-31T20:00:00Z and a parser that knows this one string, as in the
  tests of \<open>isDraftingAllowed\<close>; a snapshot in the results phase with two picks, saved at
  time 0, and a \<open>JSON.parse\<close> that reads the text \<open>snapshot\<close> as this snapshot and throws on
  anything else.
\<close>

definition sampleStart :: int where
  "sampleStart = 1756670400000"

definition sampleParseDate :: "string \<Rightarrow> jsDate" where
  "sampleParseDate s = (if s = ''2025-08-31T20:00:00Z'' then Some sampleStart else None)"

definition sampleState :: AppState where
  "sampleState =
     \<lparr> s_phase = Results, s_batters = [],
       s_players = [\<lparr> p_id = 1, p_name = ''You'', p_picks = [1, 2], p_results = None,
                       p_score = None \<rparr>],
       s_boosters = Map.empty, s_lineupInfo = None, s_gameState = [], s_inningStr = [],
       s_previousScores = Map.empty, s_previousTotalScore = 0, s_savedAt = 0,
       s_scoreViewingAllowed = None \<rparr>"

definition sampleParse :: "string \<Rightarrow> AppState option" where
  "sampleParse s = (if s = ''snapshot'' then Some sampleState else None)"

text \<open>
  A lineup as in the tests of the history, with the two library functions restricted to
  its date; the single player with a given score; and two stored histories of one game
  each, whose only player has the total -5 and 0.
\<close>

definition sampleLineup :: LineupInfo where
  "sampleLineup =
     \<lparr> l_gamePk = 12345, l_opponent = ''Guardians'', l_side = Home,
       l_firstPitchLocal = Some ''7:10 PM'', l_gameDate = Some ''2025-08-31T00:10:00Z'' \<rparr>"

definition sampleIsoDay :: "string \<Rightarrow> string option" where
  "sampleIsoDay s = (if s = ''2025-08-31T00:10:00Z'' then Some ''2025-08-31'' else None)"

definition sampleGetTime :: "string \<Rightarrow> int" where
  "sampleGetTime d = (if d = ''2025-08-31'' then 1756598400000 else 0)"

definition samplePlayers :: "int \<Rightarrow> Player list" where
  "samplePlayers score =
     [\<lparr> p_id = 1, p_name = ''You'', p_picks = [1, 2, 3], p_results = None,
        p_score = Some score \<rparr>]"

text \<open>
  A second lineup for the same game (no game date, so the day is the day of the call), a
  list of batters that lacks batter 2, and a player with two pick results.
\<close>

definition sampleLineupLater :: LineupInfo where
  "sampleLineupLater =
     \<lparr> l_gamePk = 12345, l_opponent = ''Cleveland Guardians'', l_side = Home,
       l_firstPitchLocal = None, l_gameDate = None \<rparr>"

definition sampleBatters :: "Batter list" where
  "sampleBatters =
     [\<lparr> b_id = 1, b_name = ''Byron Buxton'', b_mlbId = Some 621439 \<rparr>,
      \<lparr> b_id = 3, b_name = ''Jose Miranda'', b_mlbId = Some 669304 \<rparr>]"

definition sampleResults :: "PlayerPickResult list" where
  "sampleResults =
     [\<lparr> r_batterId = 1, r_outcomes = [O1B, HR], r_points = 60, r_breakdown = None,
        r_boost = Some 20, r_basePoints = Some 50 \<rparr>,
      \<lparr> r_batterId = 2, r_outcomes = [K], r_points = - 5, r_breakdown = None,
        r_boost = Some 30, r_basePoints = Some (- 5) \<rparr>]"

definition samplePlayersWithResults :: "int \<Rightarrow> Player list" where
  "samplePlayersWithResults score =
     [\<lparr> p_id = 1, p_name = ''You'', p_picks = [1, 2, 3], p_results = Some sampleResults,
        p_score = Some score \<rparr>]"

definition sampleHistory :: "int \<Rightarrow> HistoricalData" where
  "sampleHistory score =
     \<lparr> d_games =
         [\<lparr> g_id = ''12345_2025-08-31'', g_date = ''2025-08-31'', g_gamePk = 12345,
            g_opponent = ''Guardians'', g_side = Home, g_finalScore = None,
            g_gameStatus = ''Final'',
            g_players = [\<lparr> hp_name = ''You'', hp_picks = [], hp_totalScore = score \<rparr>],
            g_completedAt = 0 \<rparr>],
       d_stats = emptyStats, d_lastUpdated = 0 \<rparr>"

section \<open>Scoring: theorems\<close>

subsection \<open>Base points\<close>

lemma Math_round_of_int: "Math_round (of_int n) = n"
  unfolding Math_round_def by linarith

text \<open>
  C4. \<open>calculateBasePoints\<close> is the linear combination of the fourteen counters with the
  weights 10, 20, 30, 40, 45, 50, 80, 5, 5, 15, 15, -5, -10 and 2; nothing is clamped, and
  there are breakdowns whose total is negative (three strikeouts and two double plays
  give -35).
\<close>

theorem calculateBasePoints_linear:
  "calculateBasePoints b =
     10 * singles b + 20 * doubles b + 30 * triples b + 40 * hr_solo b + 45 * hr_2r b
     + 50 * hr_3r b + 80 * hr_gs b + 5 * walks b + 5 * hbp b + 15 * rbi_non_hr b
     + 15 * runs_non_hr b - 5 * strikeouts b - 10 * gidp b + 2 * fielders_choice b
   \<and> calculateBasePoints (emptyBreakdown\<lparr>strikeouts := 3, gidp := 2\<rparr>) = - 35"
  by (simp add: calculateBasePoints_def PTS_defs emptyBreakdown_def)

subsection \<open>The double model\<close>

lemma power_int_2_pos: "(0::rat) < power_int 2 e"
  by (simp add: zero_less_power_int)

lemma val_pos_iff: "0 < valueOf d \<longleftrightarrow> 0 < mantissa d"
proof
  assume "0 < valueOf d"
  then have "0 < rat_of_int (mantissa d) * power_int 2 (exponent d)"
    by (simp only: valueOf_def)
  then have "0 < rat_of_int (mantissa d)"
    by (rule zero_less_mult_pos2) (rule power_int_2_pos)
  then show "0 < mantissa d"
    by simp
next
  assume "0 < mantissa d"
  then have "0 < rat_of_int (mantissa d)"
    by simp
  then have "0 < rat_of_int (mantissa d) * power_int 2 (exponent d)"
    by (rule mult_pos_pos) (rule power_int_2_pos)
  then show "0 < valueOf d"
    by (simp only: valueOf_def)
qed

lemma double_gt0_val: "double_gt0 d \<longleftrightarrow> 0 < valueOf d"
  by (simp add: double_gt0_def val_pos_iff)

lemma bitLength_le: "n < 2 ^ k \<Longrightarrow> bitLength n \<le> k"
proof (induction k arbitrary: n)
  case 0
  then show ?case by simp
next
  case (Suc k)
  show ?case
  proof (cases "n = 0")
    case True
    then show ?thesis by simp
  next
    case False
    from Suc.prems have "n div 2 < 2 ^ k" by simp
    then have "bitLength (n div 2) \<le> k" by (rule Suc.IH)
    with False show ?thesis by (subst bitLength.simps) simp
  qed
qed

lemma roundToDouble_exact: "\<bar>m\<bar> < 2 ^ 53 \<Longrightarrow> roundToDouble m e = Double m e"
proof -
  assume "\<bar>m\<bar> < 2 ^ 53"
  then have "nat \<bar>m\<bar> < 2 ^ 53" by simp
  then have "bitLength (nat \<bar>m\<bar>) \<le> 53" by (rule bitLength_le)
  then show ?thesis by (simp add: roundToDouble_def Let_def del: bitLength.simps)
qed

lemma double_times_exact:
  assumes "\<bar>mantissa a * mantissa b\<bar> < 2 ^ 53"
  shows "valueOf (double_times a b) = valueOf a * valueOf b"
proof -
  have "double_times a b = Double (mantissa a * mantissa b) (exponent a + exponent b)"
    using assms by (simp add: double_times_def roundToDouble_exact)
  then show ?thesis
    by (simp add: valueOf_def power_int_add)
qed

lemma val_Math_round_double: "valueOf (Math_round_double d) = of_int (Math_round (valueOf d))"
proof (cases "0 \<le> exponent d")
  case True
  then have "valueOf d = of_int (mantissa d * 2 ^ nat (exponent d))"
    by (simp add: valueOf_def power_int_def)
  then have "Math_round (valueOf d) = mantissa d * 2 ^ nat (exponent d)"
    by (simp only: Math_round_of_int)
  with True show ?thesis
    by (simp add: Math_round_double_def valueOf_def)
next
  case False
  define k where "k = nat (- exponent d)"
  have "valueOf d = of_int (mantissa d) / of_int (2 ^ k)"
    using False by (simp add: valueOf_def power_int_def k_def field_simps)
  then have "valueOf d + 1 / 2 = of_int (2 * mantissa d + 2 ^ k) / of_int (2 * 2 ^ k)"
    by (simp add: field_simps)
  then have "Math_round (valueOf d) = (2 * mantissa d + 2 ^ k) div (2 * 2 ^ k)"
    unfolding Math_round_def by (simp only: floor_divide_of_int_eq)
  with False show ?thesis
    by (simp add: Math_round_double_def valueOf_def k_def)
qed

text \<open>
  The product is the nearest double: the mantissa kept has at most 53 digits (or is
  \<open>2 ^ 53\<close>), and it differs from the exact mantissa by at most one half of the last place
  kept.
\<close>

lemma bitLength_upper: "n < 2 ^ bitLength n"
proof (induction n rule: bitLength.induct)
  case (1 n)
  show ?case
  proof (cases "n = 0")
    case True
    then show ?thesis by simp
  next
    case False
    with "1.IH" have "n div 2 < 2 ^ bitLength (n div 2)" by simp
    then have "n < 2 * 2 ^ bitLength (n div 2)" by linarith
    with False show ?thesis by (subst bitLength.simps) simp
  qed
qed

lemma roundToDouble_nearest:
  "\<exists>k q. roundToDouble m e = Double (sgn m * q) (e + int k)
         \<and> 0 \<le> q \<and> q \<le> 2 ^ 53 \<and> 2 * \<bar>q * 2 ^ k - \<bar>m\<bar>\<bar> \<le> 2 ^ k"
proof (cases "bitLength (nat \<bar>m\<bar>) \<le> 53")
  case True
  have "nat \<bar>m\<bar> < 2 ^ bitLength (nat \<bar>m\<bar>)"
    by (rule bitLength_upper)
  also have "\<dots> \<le> 2 ^ 53"
    using True by (rule power_increasing) simp
  finally have "\<bar>m\<bar> \<le> 2 ^ 53"
    by simp
  moreover have "roundToDouble m e = Double (sgn m * \<bar>m\<bar>) (e + int 0)"
    using True by (simp add: roundToDouble_def Let_def mult_sgn_abs del: bitLength.simps)
  ultimately show ?thesis
    by (intro exI [of _ 0] exI [of _ "\<bar>m\<bar>"]) simp
next
  case False
  define n where "n = bitLength (nat \<bar>m\<bar>)"
  define k where "k = n - 53"
  define q where "q = \<bar>m\<bar> div 2 ^ k"
  define r where "r = \<bar>m\<bar> mod 2 ^ k"
  define q' where "q' = (if r > 2 ^ (k - 1) \<or> (r = 2 ^ (k - 1) \<and> odd q) then q + 1 else q)"
  from False have n: "n = 53 + k" "1 \<le> k"
    by (simp_all add: n_def k_def)
  have split: "\<bar>m\<bar> = q * 2 ^ k + r"
    unfolding q_def r_def by (rule div_mult_mod_eq [symmetric])
  have r: "0 \<le> r" "r < 2 ^ k"
    by (simp_all add: r_def)
  have two: "(2::int) ^ k = 2 * 2 ^ (k - 1)"
    using n(2) by (cases k) simp_all
  have "nat \<bar>m\<bar> < 2 ^ n"
    unfolding n_def by (rule bitLength_upper)
  then have "\<bar>m\<bar> < 2 ^ (53 + k)"
    by (simp add: n(1) nat_less_iff)
  then have lt: "\<bar>m\<bar> < 2 ^ 53 * 2 ^ k"
    by (simp only: power_add)
  have pk: "(0::int) < 2 ^ k"
    by simp
  have "q * 2 ^ k \<le> \<bar>m\<bar>"
    using split r by linarith
  then have "q * 2 ^ k < 2 ^ 53 * 2 ^ k"
    using lt by (rule le_less_trans)
  then have "q < 2 ^ 53"
    using mult_less_cancel_right_pos [OF pk] by blast
  moreover have "0 \<le> q"
    by (simp add: q_def pos_imp_zdiv_nonneg_iff)
  ultimately have q': "0 \<le> q'" "q' \<le> 2 ^ 53"
    by (simp_all add: q'_def)
  have err: "2 * \<bar>q' * 2 ^ k - \<bar>m\<bar>\<bar> \<le> 2 ^ k"
    using r two unfolding split q'_def by (auto simp: algebra_simps)
  have "roundToDouble m e = Double (sgn m * q') (e + int k)"
    using False
    by (simp add: roundToDouble_def Let_def q'_def q_def r_def k_def n_def del: bitLength.simps)
  with q' err show ?thesis
    by blast
qed

text \<open>
  The values of the tests of \<open>applyBoost\<close>; three products with the doubles written
  1.45, 1.15 and 0.3, where the rounding of the product decides the result; and three
  products beyond \<open>2 ^ 53\<close>, the last two of them ties that go to the even mantissa.
\<close>

lemma applyBoost_examples:
  "applyBoost (Double 100 0) (Double 3 (- 1)) = Double 150 0"
  "applyBoost (Double 100 0) (Double 1 (- 1)) = Double 50 0"
  "applyBoost (Double 100 0) (Double 2 0) = Double 200 0"
  "applyBoost (Double 33 0) (Double 3 (- 1)) = Double 50 0"
  "applyBoost (Double 67 0) (Double 3 (- 1)) = Double 101 0"
  "applyBoost (Double (- 50) 0) (Double 3 (- 1)) = Double (- 50) 0"
  "applyBoost (Double 0 0) (Double 3 (- 1)) = Double 0 0"
  "applyBoost (Double 10 0) (Double 6530219459687219 (- 52)) = Double 15 0"
  "applyBoost (Double 50 0) (Double 2589569785738035 (- 51)) = Double 57 0"
  "applyBoost (Double 5 0) (Double 5404319552844595 (- 54)) = Double 2 0"
  "applyBoost (Double 9007199254740991 0) (Double 3 0) = Double 27021597764222972 0"
  "applyBoost (Double 3002399751580331 0) (Double 3 0) = Double 9007199254740992 0"
  "applyBoost (Double 1801439850948199 0) (Double 5 0) = Double 9007199254740996 0"
  by (simp_all add: applyBoost_def double_gt0_def double_times_def roundToDouble_def Let_def
      Math_round_double_def)

subsection \<open>Boost and score from the feed\<close>

text \<open>
  C2. For positive base points \<open>applyBoost\<close> returns \<open>Math.round\<close> of the double product
  \<open>basePoints * p\<close>: the integer within one half of that product, a tie going up. For base
  points that are zero or negative it returns the base points unchanged, whatever the
  factor. When the product of the two mantissas is below \<open>2 ^ 53\<close> the double product is
  the exact product, and the result is the exact product rounded. A whole percent \<open>p\<close>
  then multiplies positive whole base points by \<open>p\<close> itself: 100 gives 100 times the base
  points, not the base points.
\<close>

theorem applyBoost_rounds_product_or_keeps:
  "(0 < valueOf basePoints \<longrightarrow>
      applyBoost basePoints p = Math_round_double (double_times basePoints p)
      \<and> valueOf (applyBoost basePoints p)
          = of_int (Math_round (valueOf (double_times basePoints p)))
      \<and> valueOf (applyBoost basePoints p) - 1 / 2 \<le> valueOf (double_times basePoints p)
      \<and> valueOf (double_times basePoints p) < valueOf (applyBoost basePoints p) + 1 / 2)
   \<and> (valueOf basePoints \<le> 0 \<longrightarrow> applyBoost basePoints p = basePoints)
   \<and> (0 < valueOf basePoints \<and> \<bar>mantissa basePoints * mantissa p\<bar> < 2 ^ 53 \<longrightarrow>
        valueOf (applyBoost basePoints p) = of_int (Math_round (valueOf basePoints * valueOf p)))
   \<and> (0 < b \<and> \<bar>b * percent\<bar> < 2 ^ 53 \<longrightarrow>
        applyBoost (Double b 0) (Double percent 0) = Double (b * percent) 0)
   \<and> (0 < b \<and> b < 2 ^ 46 \<longrightarrow> applyBoost (Double b 0) (Double 100 0) = Double (100 * b) 0)"
proof -
  have pos: "applyBoost basePoints p = Math_round_double (double_times basePoints p)"
    if "0 < valueOf basePoints"
    using that by (simp add: applyBoost_def double_gt0_val)
  have near: "of_int (Math_round x) - 1 / 2 \<le> x \<and> x < of_int (Math_round x) + 1 / 2" for x
    unfolding Math_round_def by linarith
  have keep: "applyBoost basePoints p = basePoints" if "valueOf basePoints \<le> 0"
    using that by (simp add: applyBoost_def double_gt0_val)
  have whole: "applyBoost (Double b 0) (Double k 0) = Double (b * k) 0"
    if "0 < b" "\<bar>b * k\<bar> < 2 ^ 53" for k
    using that
    by (simp add: applyBoost_def double_gt0_def double_times_def roundToDouble_exact
        Math_round_double_def)
  have hundred: "applyBoost (Double b 0) (Double 100 0) = Double (100 * b) 0"
    if "0 < b" "b < 2 ^ 46"
  proof -
    from that have "\<bar>b * 100\<bar> < 2 ^ 53" by simp
    from whole [OF that(1) this] show ?thesis by (simp add: mult.commute)
  qed
  have exact: "valueOf (applyBoost basePoints p)
                 = of_int (Math_round (valueOf basePoints * valueOf p))"
    if "0 < valueOf basePoints" "\<bar>mantissa basePoints * mantissa p\<bar> < 2 ^ 53"
    using pos [OF that(1)] double_times_exact [OF that(2)]
    by (simp add: val_Math_round_double)
  show ?thesis
    using pos keep exact whole hundred near [of "valueOf (double_times basePoints p)"]
    by (simp add: val_Math_round_double)
qed

theorem applyBoost_rounds_product_or_keeps_witness:
  "0 < valueOf (Double 33 0)
   \<and> \<bar>mantissa (Double 33 0) * mantissa (Double 3 (- 1))\<bar> < 2 ^ 53
   \<and> applyBoost (Double 33 0) (Double 3 (- 1)) = Double 50 0
   \<and> 0 < valueOf (Double 10 0)
   \<and> applyBoost (Double 10 0) (Double 6530219459687219 (- 52)) = Double 15 0
   \<and> valueOf (Double (- 50) 0) \<le> 0
   \<and> applyBoost (Double (- 50) 0) (Double 3 (- 1)) = Double (- 50) 0
   \<and> (0::int) < 33 \<and> \<bar>33 * 100 :: int\<bar> < 2 ^ 53 \<and> (33::int) < 2 ^ 46
   \<and> applyBoost (Double 33 0) (Double 100 0) = Double 3300 0"
proof -
  have pos: "0 < valueOf (Double 33 0)" "0 < valueOf (Double 10 0)"
    and neg: "valueOf (Double (- 50) 0) \<le> 0"
    by (simp_all add: valueOf_def)
  have prod: "Math_round_double (double_times (Double 33 0) (Double 3 (- 1))) = Double 50 0"
    "Math_round_double (double_times (Double 10 0) (Double 6530219459687219 (- 52)))
       = Double 15 0"
    by (simp_all add: double_times_def roundToDouble_def Let_def Math_round_double_def)
  show ?thesis
    using pos neg prod
      applyBoost_rounds_product_or_keeps [of "Double 33 0" "Double 3 (- 1)" 33 100]
      applyBoost_rounds_product_or_keeps [of "Double 10 0" "Double 6530219459687219 (- 52)"
        33 100]
      applyBoost_rounds_product_or_keeps [of "Double (- 50) 0" "Double 3 (- 1)" 33 100]
    by simp
qed

lemma classifyHRs_other_fields:
  "singles (classifyHRs h r b) = singles b" "doubles (classifyHRs h r b) = doubles b"
  "triples (classifyHRs h r b) = triples b" "walks (classifyHRs h r b) = walks b"
  "hbp (classifyHRs h r b) = hbp b" "rbi_non_hr (classifyHRs h r b) = rbi_non_hr b"
  "runs_non_hr (classifyHRs h r b) = runs_non_hr b"
  "strikeouts (classifyHRs h r b) = strikeouts b" "gidp (classifyHRs h r b) = gidp b"
  "fielders_choice (classifyHRs h r b) = fielders_choice b"
  by (simp_all add: classifyHRs_def Let_def)

text \<open>
  What the source computes for the non-HR RBI: the total RBI minus the number of home runs
  times the class sum, cut off at 0. With at most one home run this is the
  value of the spec.
\<close>

lemma buildScore_rbi_non_hr:
  "rbi_non_hr (breakdown (buildScoreFromStatsAndPlays stats plays)) =
     max 0 (stat rbi stats
            - stat homeRuns stats
              * creditedHRRBIs (breakdown (buildScoreFromStatsAndPlays stats plays)))"
  by (simp add: buildScoreFromStatsAndPlays_def Let_def creditedHRRBIs_def algebra_simps)

lemma creditedHRRBIs_buildScore:
  "stat homeRuns stats \<le> 0 \<Longrightarrow>
     creditedHRRBIs (breakdown (buildScoreFromStatsAndPlays stats plays)) = 0"
  by (simp add: buildScoreFromStatsAndPlays_def Let_def creditedHRRBIs_def classifyHRs_def
      emptyBreakdown_def)

lemma buildScore_rbi_non_hr_at_most_one_homer:
  assumes "stat homeRuns stats \<le> 1"
  shows "rbi_non_hr (breakdown (buildScoreFromStatsAndPlays stats plays)) =
     max 0 (stat rbi stats
            - creditedHRRBIs (breakdown (buildScoreFromStatsAndPlays stats plays)))"
proof (cases "stat homeRuns stats = 1")
  case True
  then show ?thesis
    using buildScore_rbi_non_hr [of stats plays] by simp
next
  case False
  with assms have "stat homeRuns stats \<le> 0"
    by simp
  then show ?thesis
    using buildScore_rbi_non_hr [of stats plays] creditedHRRBIs_buildScore [of stats plays]
    by simp
qed

text \<open>
  C3. The non-HR RBI of the returned breakdown are meant to be
  \<open>max(0, totalRBI - credited)\<close> with 4, 3, 2 or 1 RBI credited per classified home run.
  A batter with four hits, three of them home runs, and four RBI is classified as three
  solo home runs, so three RBI are credited and one RBI is left; the source multiplies the
  credited RBI by the number of home runs once more and returns 0.
\<close>

theorem buildScore_rbi_non_hr_three_homers:
  "(let r = buildScoreFromStatsAndPlays
              (Some \<lparr> hits = Some 4, st_doubles = None, st_triples = None, homeRuns = Some 3,
                      baseOnBalls = None, strikeOuts = None, groundIntoDoublePlay = None,
                      rbi = Some 4, runs = Some 3 \<rparr>) ([] :: unit list)
    in hr_solo (breakdown r) = 3 \<and> creditedHRRBIs (breakdown r) = 3
       \<and> max 0 (4 - creditedHRRBIs (breakdown r)) = 1
       \<and> rbi_non_hr (breakdown r) = 0)"
  by (simp add: buildScoreFromStatsAndPlays_def Let_def creditedHRRBIs_def classifyHRs_def
      stat_def num_or0_def emptyBreakdown_def)

text \<open>
  C9. The points returned by \<open>buildScoreFromStatsAndPlays\<close> are \<open>calculateBasePoints\<close> of
  the breakdown returned by the same call, for every statistics object (present or
  missing) and every list of plays.
\<close>

theorem buildScore_points_consistent:
  "points (buildScoreFromStatsAndPlays stats plays) =
     calculateBasePoints (breakdown (buildScoreFromStatsAndPlays stats plays))"
  by (simp add: buildScoreFromStatsAndPlays_def Let_def)

text \<open>
  C10. The breakdown returned by \<open>buildScoreFromStatsAndPlays\<close> always has \<open>hbp = 0\<close> and
  \<open>fielders_choice = 0\<close>, so the returned points are the weighted sum of the other twelve
  counters alone.
\<close>

theorem buildScore_hbp_fc_zero:
  "hbp (breakdown (buildScoreFromStatsAndPlays stats plays)) = 0
   \<and> fielders_choice (breakdown (buildScoreFromStatsAndPlays stats plays)) = 0
   \<and> points (buildScoreFromStatsAndPlays stats plays) =
       (let b = breakdown (buildScoreFromStatsAndPlays stats plays) in
        10 * singles b + 20 * doubles b + 30 * triples b + 40 * hr_solo b + 45 * hr_2r b
        + 50 * hr_3r b + 80 * hr_gs b + 5 * walks b + 15 * rbi_non_hr b
        + 15 * runs_non_hr b - 5 * strikeouts b - 10 * gidp b)"
  by (simp add: buildScoreFromStatsAndPlays_def Let_def calculateBasePoints_def PTS_defs
      classifyHRs_other_fields emptyBreakdown_def)

section \<open>Booster allocation: theorems\<close>

lemma Math_round_share_bounds:
  fixes r x s :: int
  assumes "0 \<le> r" "0 \<le> x" "x \<le> s" "0 < s"
  shows "0 \<le> Math_round (of_int (r * x) / of_int s)"
    and "Math_round (of_int (r * x) / of_int s) \<le> r"
proof -
  have "(0::rat) \<le> of_int (r * x) / of_int s"
    using assms by simp
  then show "0 \<le> Math_round (of_int (r * x) / of_int s)"
    unfolding Math_round_def by linarith
  have "(of_int (r * x) :: rat) \<le> of_int (r * s)"
    using assms by (simp add: mult_left_mono del: of_int_mult)
  then have "(of_int (r * x) :: rat) / of_int s \<le> of_int r"
    using assms by (simp add: divide_le_eq)
  then show "Math_round (of_int (r * x) / of_int s) \<le> r"
    unfolding Math_round_def by linarith
qed

lemma firstShare_bounds:
  assumes "0 \<le> remaining" "0 \<le> x" "0 \<le> y"
  shows "0 \<le> firstShare remaining x y \<and> firstShare remaining x y \<le> remaining"
proof (cases "x + y \<le> 0")
  case True
  have "\<lfloor>(of_int remaining :: rat) / 2\<rfloor> = remaining div 2"
    by (metis floor_divide_of_int_eq of_int_numeral)
  then show ?thesis
    using True assms by (simp add: firstShare_def)
next
  case False
  then show ?thesis
    using Math_round_share_bounds [of remaining x "x + y"] assms by (simp add: firstShare_def)
qed

text \<open>The result of the source when the target is the first, second or third pick.\<close>

lemma normalize_target_first:
  assumes "b \<noteq> t" "c \<noteq> t"
  shows "normalizeBoostersToHundred t raw [t, b, c] cur =
     (let clamped = max 0 (min 100 (Math_round raw));
          n1 = firstShare (100 - clamped) (getOr0 cur (Num b)) (getOr0 cur (Num c))
      in cur(Num t \<mapsto> clamped, Num b \<mapsto> n1, Num c \<mapsto> 100 - clamped - n1))"
  using assms by (simp add: normalizeBoostersToHundred_def Let_def keyAt_def firstShare_def)

lemma normalize_target_second:
  assumes "a \<noteq> t" "c \<noteq> t"
  shows "normalizeBoostersToHundred t raw [a, t, c] cur =
     (let clamped = max 0 (min 100 (Math_round raw));
          n1 = firstShare (100 - clamped) (getOr0 cur (Num a)) (getOr0 cur (Num c))
      in cur(Num t \<mapsto> clamped, Num a \<mapsto> n1, Num c \<mapsto> 100 - clamped - n1))"
  using assms by (simp add: normalizeBoostersToHundred_def Let_def keyAt_def firstShare_def)

lemma normalize_target_third:
  assumes "a \<noteq> t" "b \<noteq> t"
  shows "normalizeBoostersToHundred t raw [a, b, t] cur =
     (let clamped = max 0 (min 100 (Math_round raw));
          n1 = firstShare (100 - clamped) (getOr0 cur (Num a)) (getOr0 cur (Num b))
      in cur(Num t \<mapsto> clamped, Num a \<mapsto> n1, Num b \<mapsto> 100 - clamped - n1))"
  using assms by (simp add: normalizeBoostersToHundred_def Let_def keyAt_def firstShare_def)

text \<open>
  C1, as the claim states it, fails: the source never checks that the target is one of the
  picks. With picks 1, 2, 3 holding 30, 30, 40 and target 4 set to 50, the first two picks
  share the remaining 50, the third keeps its 40, and the three picks sum to 90.
\<close>

theorem normalize_target_not_picked_counterexample:
  "normalizeBoostersToHundred 4 50 [1, 2, 3] [Num 1 \<mapsto> 30, Num 2 \<mapsto> 30, Num 3 \<mapsto> 40] (Num 1)
     = Some 25
   \<and> normalizeBoostersToHundred 4 50 [1, 2, 3] [Num 1 \<mapsto> 30, Num 2 \<mapsto> 30, Num 3 \<mapsto> 40] (Num 2)
     = Some 25
   \<and> normalizeBoostersToHundred 4 50 [1, 2, 3] [Num 1 \<mapsto> 30, Num 2 \<mapsto> 30, Num 3 \<mapsto> 40] (Num 3)
     = Some 40
   \<and> (25::int) + 25 + 40 \<noteq> 100"
  by code_simp

text \<open>
  The other two conditions of the amended claim are needed as well: a negative current
  value of another pick leaves the range, and a pick listed twice breaks the sum.
\<close>

lemma normalize_negative_current_example:
  "normalizeBoostersToHundred 1 0 [1, 2, 3] [Num 1 \<mapsto> 0, Num 2 \<mapsto> - 50, Num 3 \<mapsto> 100] (Num 2)
     = Some (- 100)
   \<and> normalizeBoostersToHundred 1 0 [1, 2, 3] [Num 1 \<mapsto> 0, Num 2 \<mapsto> - 50, Num 3 \<mapsto> 100] (Num 3)
     = Some 200"
  by code_simp

lemma normalize_repeated_pick_example:
  "normalizeBoostersToHundred 1 50 [1, 1, 2] [Num 1 \<mapsto> 30, Num 2 \<mapsto> 70] (Num 1) = Some 50
   \<and> normalizeBoostersToHundred 1 50 [1, 1, 2] [Num 1 \<mapsto> 30, Num 2 \<mapsto> 70] (Num 2) = Some 50
   \<and> normalizeBoostersToHundred 1 50 [1, 1, 2] [Num 1 \<mapsto> 30, Num 2 \<mapsto> 70] Undefined = Some 0"
  by code_simp

text \<open>
  C1, amended. For three distinct pick ids, a target that is one of them, any raw value
  (in or out of range, whole or not) and current boosters whose values for the two other
  picks are not negative (a missing entry counts as 0), the returned mapping assigns the
  three picks three integers, each in [0,100], whose sum is exactly 100.
\<close>

theorem normalize_sums_to_hundred:
  assumes "distinct [a, b, c]" and "targetId \<in> {a, b, c}"
    and "\<forall>k \<in> {a, b, c}. k \<noteq> targetId \<longrightarrow> 0 \<le> getOr0 cur (Num k)"
  shows "\<exists>x y z. normalizeBoostersToHundred targetId rawValue [a, b, c] cur (Num a) = Some x
           \<and> normalizeBoostersToHundred targetId rawValue [a, b, c] cur (Num b) = Some y
           \<and> normalizeBoostersToHundred targetId rawValue [a, b, c] cur (Num c) = Some z
           \<and> 0 \<le> x \<and> x \<le> 100 \<and> 0 \<le> y \<and> y \<le> 100 \<and> 0 \<le> z \<and> z \<le> 100
           \<and> x + y + z = 100"
proof -
  define clamped where "clamped = max 0 (min 100 (Math_round rawValue))"
  have cl: "0 \<le> clamped" "clamped \<le> 100"
    by (simp_all add: clamped_def)
  have sh: "0 \<le> firstShare (100 - clamped) x y
            \<and> firstShare (100 - clamped) x y \<le> 100 - clamped"
    if "0 \<le> x" "0 \<le> y" for x y
    using firstShare_bounds [of "100 - clamped" x y] that cl by simp
  consider "targetId = a" | "targetId = b" | "targetId = c"
    using assms(2) by auto
  then show ?thesis
  proof cases
    case 1
    with assms have ne: "b \<noteq> targetId" "c \<noteq> targetId" "b \<noteq> c"
      and nn: "0 \<le> getOr0 cur (Num b)" "0 \<le> getOr0 cur (Num c)"
      by auto
    show ?thesis
      using sh [OF nn] ne cl unfolding 1 [symmetric]
      by (simp add: normalize_target_first [OF ne(1,2)] Let_def clamped_def [symmetric])
  next
    case 2
    with assms have ne: "a \<noteq> targetId" "c \<noteq> targetId" "a \<noteq> c"
      and nn: "0 \<le> getOr0 cur (Num a)" "0 \<le> getOr0 cur (Num c)"
      by auto
    show ?thesis
      using sh [OF nn] ne cl unfolding 2 [symmetric]
      by (simp add: normalize_target_second [OF ne(1,2)] Let_def clamped_def [symmetric])
  next
    case 3
    with assms have ne: "a \<noteq> targetId" "b \<noteq> targetId" "a \<noteq> b"
      and nn: "0 \<le> getOr0 cur (Num a)" "0 \<le> getOr0 cur (Num b)"
      by auto
    show ?thesis
      using sh [OF nn] ne cl unfolding 3 [symmetric]
      by (simp add: normalize_target_third [OF ne(1,2)] Let_def clamped_def [symmetric])
  qed
qed

theorem normalize_sums_to_hundred_witness:
  "distinct [1, 2, 3 :: int] \<and> (1::int) \<in> {1, 2, 3}
   \<and> 0 \<le> getOr0 [Num 1 \<mapsto> 30, Num 2 \<mapsto> 30, Num 3 \<mapsto> 40] (Num 2)
   \<and> 0 \<le> getOr0 [Num 1 \<mapsto> 30, Num 2 \<mapsto> 30, Num 3 \<mapsto> 40] (Num 3)
   \<and> (\<exists>x y z.
        normalizeBoostersToHundred 1 150 [1, 2, 3] [Num 1 \<mapsto> 30, Num 2 \<mapsto> 30, Num 3 \<mapsto> 40] (Num 1)
          = Some x
        \<and> normalizeBoostersToHundred 1 150 [1, 2, 3] [Num 1 \<mapsto> 30, Num 2 \<mapsto> 30, Num 3 \<mapsto> 40] (Num 2)
          = Some y
        \<and> normalizeBoostersToHundred 1 150 [1, 2, 3] [Num 1 \<mapsto> 30, Num 2 \<mapsto> 30, Num 3 \<mapsto> 40] (Num 3)
          = Some z
        \<and> 0 \<le> x \<and> x \<le> 100 \<and> 0 \<le> y \<and> y \<le> 100 \<and> 0 \<le> z \<and> z \<le> 100
        \<and> x + y + z = 100)"
proof -
  have h: "\<forall>k \<in> {1, 2, 3 :: int}. k \<noteq> 1 \<longrightarrow>
             0 \<le> getOr0 [Num 1 \<mapsto> 30, Num 2 \<mapsto> 30, Num 3 \<mapsto> 40] (Num k)"
    by (simp add: getOr0_def)
  have d: "distinct [1, 2, 3 :: int]" and m: "(1::int) \<in> {1, 2, 3}"
    by simp_all
  show ?thesis
    using normalize_sums_to_hundred [OF d m h, of 150] by (simp add: getOr0_def)
qed

section \<open>Drafting window: theorems\<close>

text \<open>
  C8. \<open>isDraftingAllowed\<close> returns true when the game date is absent, empty or does not
  parse. When it parses to the instant \<open>gameStart\<close>, the result is true exactly when now
  (the time passed in, or the clock when none is passed) is strictly before
  \<open>gameStart\<close> plus 5 minutes: true at the start and one millisecond before the end of
  the window, false at the end of the window.
\<close>

theorem isDraftingAllowed_window:
  "isDraftingAllowed parseDate clock None currentTime
   \<and> isDraftingAllowed parseDate clock (Some []) currentTime
   \<and> (parseDate s = None \<longrightarrow> isDraftingAllowed parseDate clock (Some s) currentTime)
   \<and> (s \<noteq> [] \<and> parseDate s = Some gameStart \<longrightarrow>
        isDraftingAllowed parseDate clock (Some s) (Some (Some now))
          = (now < gameStart + 5 * 60 * 1000)
        \<and> isDraftingAllowed parseDate clock (Some s) None
          = (clock < gameStart + 5 * 60 * 1000)
        \<and> isDraftingAllowed parseDate clock (Some s) (Some (Some gameStart))
        \<and> isDraftingAllowed parseDate clock (Some s) (Some (Some (gameStart + 299999)))
        \<and> \<not> isDraftingAllowed parseDate clock (Some s) (Some (Some (gameStart + 300000))))"
  by (simp add: isDraftingAllowed_def Let_def)

theorem isDraftingAllowed_window_witness:
  "''2025-08-31T20:00:00Z'' \<noteq> []
   \<and> sampleParseDate ''2025-08-31T20:00:00Z'' = Some sampleStart
   \<and> isDraftingAllowed sampleParseDate 0 (Some ''2025-08-31T20:00:00Z'')
        (Some (Some (sampleStart + 299000)))
   \<and> \<not> isDraftingAllowed sampleParseDate 0 (Some ''2025-08-31T20:00:00Z'')
        (Some (Some (sampleStart + 301000)))
   \<and> sampleParseDate ''invalid-date'' = None
   \<and> isDraftingAllowed sampleParseDate 0 (Some ''invalid-date'') (Some (Some sampleStart))"
proof -
  have p: "sampleParseDate ''2025-08-31T20:00:00Z'' = Some sampleStart"
    and q: "sampleParseDate ''invalid-date'' = None"
    by (simp_all add: sampleParseDate_def)
  show ?thesis
    using p q
      isDraftingAllowed_window [of sampleParseDate 0 "Some (Some sampleStart)"
        "''2025-08-31T20:00:00Z''" sampleStart "sampleStart + 299000"]
      isDraftingAllowed_window [of sampleParseDate 0 "Some (Some sampleStart)"
        "''2025-08-31T20:00:00Z''" sampleStart "sampleStart + 301000"]
      isDraftingAllowed_window [of sampleParseDate 0 "Some (Some sampleStart)"
        "''invalid-date''" sampleStart 0]
    by simp
qed

section \<open>Restoring the application state: theorems\<close>

text \<open>
  C7. When the stored text parses to a snapshot whose age \<open>now - savedAt\<close> exceeds 24
  hours, \<open>loadAppState\<close> removes the snapshot from the store and returns \<open>null\<close>, whatever
  the phase, the rest of the snapshot and the answers of the network. When the stored
  value is absent or empty, or does not parse, it returns \<open>null\<close> as well and leaves the
  store as it is. The function is total: no branch throws.
\<close>

theorem loadAppState_discards_stale:
  "(store = Some savedState \<and> savedState \<noteq> [] \<and> JSON_parse savedState = Some state
      \<and> now - s_savedAt state > 24 * 60 * 60 * 1000 \<longrightarrow>
      loadAppState JSON_parse now viewing schedule store = (None, None))
   \<and> (store = None \<or> store = Some [] \<or> (store = Some savedState \<and> JSON_parse savedState = None)
      \<longrightarrow> loadAppState JSON_parse now viewing schedule store = (None, store))"
  by (auto simp add: loadAppState_def Let_def)

theorem loadAppState_discards_stale_witness:
  "sampleParse ''snapshot'' = Some sampleState
   \<and> 25 * 60 * 60 * 1000 - s_savedAt sampleState > 24 * 60 * 60 * 1000
   \<and> loadAppState sampleParse (25 * 60 * 60 * 1000) True FetchFailed (Some ''snapshot'')
        = (None, None)
   \<and> sampleParse ''invalid-json'' = None
   \<and> loadAppState sampleParse (25 * 60 * 60 * 1000) True FetchFailed (Some ''invalid-json'')
        = (None, Some ''invalid-json'')"
proof -
  have p: "sampleParse ''snapshot'' = Some sampleState"
    and q: "sampleParse ''invalid-json'' = None"
    by (simp_all add: sampleParse_def)
  have age: "25 * 60 * 60 * 1000 - s_savedAt sampleState > 24 * 60 * 60 * 1000"
    by (simp add: sampleState_def)
  show ?thesis
    using p q age
      loadAppState_discards_stale [of "Some ''snapshot''" "''snapshot''" sampleParse
        sampleState "25 * 60 * 60 * 1000" True FetchFailed]
      loadAppState_discards_stale [of "Some ''invalid-json''" "''invalid-json''" sampleParse
        sampleState "25 * 60 * 60 * 1000" True FetchFailed]
    by simp
qed

section \<open>History: theorems\<close>

subsection \<open>Upsert by game id\<close>

lemma findIndex_None: "findIndex p xs = None \<longleftrightarrow> (\<forall>x \<in> set xs. \<not> p x)"
  by (induction xs) auto

lemma findIndex_Some:
  "findIndex p xs = Some i \<Longrightarrow> i < length xs \<and> p (xs ! i) \<and> (\<forall>j < i. \<not> p (xs ! j))"
proof (induction xs arbitrary: i)
  case Nil
  then show ?case by simp
next
  case (Cons x xs)
  show ?case
  proof (cases "p x")
    case True
    with Cons.prems show ?thesis by simp
  next
    case False
    with Cons.prems obtain k where k: "findIndex p xs = Some k" "i = Suc k"
      by auto
    from Cons.IH [OF k(1)] False k(2) show ?thesis
      by (auto simp: nth_Cons split: nat.splits)
  qed
qed

lemma filter_upsert_found:
  "findIndex p xs = Some i \<Longrightarrow> p h \<Longrightarrow> length (filter p xs) \<le> 1 \<Longrightarrow> filter p (xs[i := h]) = [h]"
proof (induction xs arbitrary: i)
  case Nil
  then show ?case by simp
next
  case (Cons x xs)
  show ?case
  proof (cases "p x")
    case True
    with Cons.prems have "i = 0" "filter p xs = []" by auto
    with True Cons.prems show ?thesis by simp
  next
    case False
    with Cons.prems obtain k where k: "findIndex p xs = Some k" "i = Suc k"
      by auto
    from Cons.prems False have "length (filter p xs) \<le> 1" by simp
    from Cons.IH [OF k(1) Cons.prems(2) this] False k(2) show ?thesis by simp
  qed
qed

lemma filter_upsertGame:
  assumes "length (filter (\<lambda>g. g_id g = g_id h) gs) \<le> 1"
  shows "filter (\<lambda>g. g_id g = g_id h) (upsertGame h gs) = [h]"
proof (cases "findIndex (\<lambda>g. g_id g = g_id h) gs")
  case None
  then have "filter (\<lambda>g. g_id g = g_id h) gs = []"
    by (simp add: findIndex_None filter_empty_conv)
  with None show ?thesis by (simp add: upsertGame_def)
next
  case (Some i)
  from filter_upsert_found [OF Some _ assms, of h] Some show ?thesis
    by (simp add: upsertGame_def)
qed

lemma filter_sortNewestFirst:
  "filter p (sortNewestFirst getTime gs) = sortNewestFirst getTime (filter p gs)"
  by (simp add: sortNewestFirst_def filter_sort)

lemma d_games_updateHistoricalStats: "d_games (updateHistoricalStats data) = d_games data"
  by (simp add: updateHistoricalStats_def Let_def)

lemma addGameToHistory_games:
  assumes "gameDay isoDay today lineupInfo = Some d"
  shows "\<exists>data. addGameToHistory isoDay getTime today now players batters lineupInfo status fs store = Some data
     \<and> d_games data = sortNewestFirst getTime
          (upsertGame (makeHistoricalGame now d players batters lineupInfo status fs)
             (d_games (loadHistoricalData now store)))"
  using assms
  by (simp add: addGameToHistory_def Let_def saveHistoricalData_def d_games_updateHistoricalStats)

lemma g_id_makeHistoricalGame:
  "g_id (makeHistoricalGame now d players batters lineupInfo status fs) = gameIdOf lineupInfo d"
  by (simp add: makeHistoricalGame_def)

lemma addGameToHistory_entry:
  assumes day: "gameDay isoDay today lineupInfo = Some d"
    and once: "length (filter (\<lambda>g. g_id g = gameIdOf lineupInfo d)
                 (d_games (loadHistoricalData now store))) \<le> 1"
  shows "\<exists>data. addGameToHistory isoDay getTime today now players batters lineupInfo status fs store = Some data
     \<and> filter (\<lambda>g. g_id g = gameIdOf lineupInfo d) (d_games data)
         = [makeHistoricalGame now d players batters lineupInfo status fs]"
proof -
  let ?h = "makeHistoricalGame now d players batters lineupInfo status fs"
  from addGameToHistory_games [OF day, of getTime now players batters status fs store]
  obtain data where data:
    "addGameToHistory isoDay getTime today now players batters lineupInfo status fs store = Some data"
    "d_games data = sortNewestFirst getTime (upsertGame ?h (d_games (loadHistoricalData now store)))"
    by blast
  have "filter (\<lambda>g. g_id g = g_id ?h) (upsertGame ?h (d_games (loadHistoricalData now store))) = [?h]"
    using once by (intro filter_upsertGame) (simp add: g_id_makeHistoricalGame)
  then have "filter (\<lambda>g. g_id g = gameIdOf lineupInfo d)
               (upsertGame ?h (d_games (loadHistoricalData now store))) = [?h]"
    by (simp add: g_id_makeHistoricalGame)
  then have "filter (\<lambda>g. g_id g = gameIdOf lineupInfo d) (d_games data) = [?h]"
    by (simp add: data(2) filter_sortNewestFirst) (simp add: sortNewestFirst_def)
  with data(1) show ?thesis by blast
qed

text \<open>
  C6. \<open>addGameToHistory\<close> upserts by game id. Two calls with the same \<open>gamePk\<close> whose game
  day resolves to the same day \<open>d\<close> (hence the same id), whatever the other arguments of
  the two calls, on a stored history that holds this id at most once, leave exactly one
  entry with that id in the stored list of games. The entry holds the data of the second
  call: its lineup, game status, final score and time, and for each of its players the
  name, the score (0 when missing) and every pick result with its points, base points,
  boost and breakdown, the batter resolved in the second call's list of batters.
\<close>

theorem addGameToHistory_twice_one_entry:
  assumes pk: "l_gamePk lineupInfo1 = l_gamePk lineupInfo2"
    and day1: "gameDay isoDay today1 lineupInfo1 = Some d"
    and day2: "gameDay isoDay today2 lineupInfo2 = Some d"
    and once: "length (filter (\<lambda>g. g_id g = gameIdOf lineupInfo1 d)
                 (d_games (loadHistoricalData now1 store))) \<le> 1"
  shows "\<exists>data.
           addGameToHistory isoDay getTime today2 now2 players2 batters2 lineupInfo2 status2 fs2
             (addGameToHistory isoDay getTime today1 now1 players1 batters1 lineupInfo1 status1
                fs1 store) = Some data
           \<and> filter (\<lambda>g. g_id g = numberToString (l_gamePk lineupInfo2) @ ''_'' @ d)
                (d_games data)
               = [\<lparr> g_id = numberToString (l_gamePk lineupInfo2) @ ''_'' @ d,
                    g_date = d,
                    g_gamePk = l_gamePk lineupInfo2,
                    g_opponent = l_opponent lineupInfo2,
                    g_side = l_side lineupInfo2,
                    g_finalScore = fs2,
                    g_gameStatus = status2,
                    g_players =
                      map (\<lambda>player.
                             \<lparr> hp_name = p_name player,
                               hp_picks =
                                 map (\<lambda>result.
                                        \<lparr> k_batterId = r_batterId result,
                                          k_batterName =
                                            (case find (\<lambda>b. b_id b = r_batterId result) batters2 of
                                               None \<Rightarrow> ''Batter '' @ numberToString (r_batterId result)
                                             | Some b \<Rightarrow>
                                                 if b_name b = []
                                                 then ''Batter '' @ numberToString (r_batterId result)
                                                 else b_name b),
                                          k_mlbId =
                                            (case find (\<lambda>b. b_id b = r_batterId result) batters2 of
                                               None \<Rightarrow> None
                                             | Some b \<Rightarrow> b_mlbId b),
                                          k_points = r_points result,
                                          k_basePoints =
                                            (case r_basePoints result of None \<Rightarrow> 0 | Some n \<Rightarrow> n),
                                          k_boost =
                                            (case r_boost result of None \<Rightarrow> 0 | Some n \<Rightarrow> n),
                                          k_breakdown = r_breakdown result \<rparr>)
                                   (case p_results player of None \<Rightarrow> [] | Some rs \<Rightarrow> rs),
                               hp_totalScore =
                                 (case p_score player of None \<Rightarrow> 0 | Some n \<Rightarrow> n) \<rparr>)
                        players2,
                    g_completedAt = now2 \<rparr>]"
proof -
  have same: "gameIdOf lineupInfo1 d = gameIdOf lineupInfo2 d"
    using pk by (simp add: gameIdOf_def)
  from addGameToHistory_entry [OF day1 once, of getTime players1 batters1 status1 fs1]
  obtain data1 where data1:
    "addGameToHistory isoDay getTime today1 now1 players1 batters1 lineupInfo1 status1 fs1 store
       = Some data1"
    "filter (\<lambda>g. g_id g = gameIdOf lineupInfo1 d) (d_games data1)
       = [makeHistoricalGame now1 d players1 batters1 lineupInfo1 status1 fs1]"
    by blast
  have "length (filter (\<lambda>g. g_id g = gameIdOf lineupInfo2 d)
          (d_games (loadHistoricalData now2 (Some data1)))) \<le> 1"
    using data1(2) by (simp add: loadHistoricalData_def same)
  from addGameToHistory_entry [OF day2 this, of getTime players2 batters2 status2 fs2]
  obtain data2 where data2:
    "addGameToHistory isoDay getTime today2 now2 players2 batters2 lineupInfo2 status2 fs2
       (Some data1) = Some data2"
    "filter (\<lambda>g. g_id g = gameIdOf lineupInfo2 d) (d_games data2)
       = [makeHistoricalGame now2 d players2 batters2 lineupInfo2 status2 fs2]"
    by blast
  have entry: "makeHistoricalGame now2 d players2 batters2 lineupInfo2 status2 fs2 =
      \<lparr> g_id = numberToString (l_gamePk lineupInfo2) @ ''_'' @ d,
        g_date = d,
        g_gamePk = l_gamePk lineupInfo2,
        g_opponent = l_opponent lineupInfo2,
        g_side = l_side lineupInfo2,
        g_finalScore = fs2,
        g_gameStatus = status2,
        g_players =
          map (\<lambda>player.
                 \<lparr> hp_name = p_name player,
                   hp_picks =
                     map (\<lambda>result.
                            \<lparr> k_batterId = r_batterId result,
                              k_batterName =
                                (case find (\<lambda>b. b_id b = r_batterId result) batters2 of
                                   None \<Rightarrow> ''Batter '' @ numberToString (r_batterId result)
                                 | Some b \<Rightarrow>
                                     if b_name b = []
                                     then ''Batter '' @ numberToString (r_batterId result)
                                     else b_name b),
                              k_mlbId =
                                (case find (\<lambda>b. b_id b = r_batterId result) batters2 of
                                   None \<Rightarrow> None
                                 | Some b \<Rightarrow> b_mlbId b),
                              k_points = r_points result,
                              k_basePoints =
                                (case r_basePoints result of None \<Rightarrow> 0 | Some n \<Rightarrow> n),
                              k_boost =
                                (case r_boost result of None \<Rightarrow> 0 | Some n \<Rightarrow> n),
                              k_breakdown = r_breakdown result \<rparr>)
                       (case p_results player of None \<Rightarrow> [] | Some rs \<Rightarrow> rs),
                   hp_totalScore =
                     (case p_score player of None \<Rightarrow> 0 | Some n \<Rightarrow> n) \<rparr>)
            players2,
        g_completedAt = now2 \<rparr>"
    unfolding makeHistoricalGame_def gameIdOf_def
    by (simp add: toHistoricalPlayer_def [abs_def] toHistoricalPick_def [abs_def] Let_def
        num_or0_def del: digitsOf.simps)
  show ?thesis
    using data1(1) data2 unfolding entry gameIdOf_def by simp
qed

lemma upsertGame_ids:
  "map g_id (upsertGame h gs) =
     (if g_id h \<in> set (map g_id gs) then map g_id gs else map g_id gs @ [g_id h])"
proof (cases "findIndex (\<lambda>g. g_id g = g_id h) gs")
  case None
  then have "g_id h \<notin> set (map g_id gs)"
    by (auto simp: findIndex_None)
  with None show ?thesis
    by (simp add: upsertGame_def)
next
  case (Some i)
  from findIndex_Some [OF Some] have i: "i < length gs" "g_id (gs ! i) = g_id h"
    by simp_all
  then have "g_id h \<in> set (map g_id gs)"
    by (metis length_map nth_map nth_mem)
  moreover have "map g_id (gs[i := h]) = map g_id gs"
    using i by (simp add: map_update list_update_same_conv)
  ultimately show ?thesis
    using Some by (simp add: upsertGame_def)
qed

lemma distinct_ids_sortNewestFirst:
  "distinct (map g_id (sortNewestFirst getTime gs)) = distinct (map g_id gs)"
  by (simp add: sortNewestFirst_def distinct_map)

lemma addGameToHistory_keeps_ids_distinct:
  assumes "distinct (map g_id (d_games (loadHistoricalData now store)))"
    and "addGameToHistory isoDay getTime today now players batters lineupInfo status fs store
           = Some data"
  shows "distinct (map g_id (d_games data))"
proof (cases "gameDay isoDay today lineupInfo")
  case None
  with assms show ?thesis
    by (simp add: addGameToHistory_def Let_def loadHistoricalData_def)
next
  case (Some d)
  from addGameToHistory_games [OF Some, of getTime now players batters status fs store] assms(2)
  have "d_games data = sortNewestFirst getTime
          (upsertGame (makeHistoricalGame now d players batters lineupInfo status fs)
             (d_games (loadHistoricalData now store)))"
    by simp
  then show ?thesis
    using assms(1) by (simp add: distinct_ids_sortNewestFirst upsertGame_ids)
qed

lemma distinct_ids_once:
  "distinct (map g_id gs) \<Longrightarrow> length (filter (\<lambda>g. g_id g = i) gs) \<le> 1"
proof (induction gs)
  case Nil
  then show ?case by simp
next
  case (Cons g gs)
  show ?case
  proof (cases "g_id g = i")
    case True
    from Cons.prems have "g_id g \<notin> g_id ` set gs"
      by simp
    then have "\<forall>x \<in> set gs. g_id x \<noteq> g_id g"
      by (metis image_eqI)
    with True have "filter (\<lambda>g. g_id g = i) gs = []"
      by (simp add: filter_empty_conv)
    with True show ?thesis by simp
  next
    case False
    with Cons show ?thesis by simp
  qed
qed

text \<open>
  The condition of C6 on the stored history is the invariant of the log: a history whose
  ids are pairwise distinct holds every id at most once (\<open>distinct_ids_once\<close>), the empty
  history is one, and \<open>addGameToHistory\<close> keeps the ids distinct
  (\<open>addGameToHistory_keeps_ids_distinct\<close>).
\<close>

theorem addGameToHistory_twice_one_entry_witness:
  "l_gamePk sampleLineup = l_gamePk sampleLineupLater
   \<and> gameDay sampleIsoDay ''2025-09-01'' sampleLineup = Some ''2025-08-31''
   \<and> gameDay sampleIsoDay ''2025-08-31'' sampleLineupLater = Some ''2025-08-31''
   \<and> length (filter (\<lambda>g. g_id g = gameIdOf sampleLineup ''2025-08-31'')
               (d_games (loadHistoricalData 1 None))) \<le> 1
   \<and> (\<exists>data.
         addGameToHistory sampleIsoDay sampleGetTime ''2025-08-31'' 2 (samplePlayersWithResults 200)
           sampleBatters sampleLineupLater ''Final'' (Some (10, 2))
           (addGameToHistory sampleIsoDay sampleGetTime ''2025-09-01'' 1 (samplePlayers 155) []
              sampleLineup ''Live'' None None) = Some data
         \<and> filter (\<lambda>g. g_id g = ''12345_2025-08-31'') (d_games data)
             = [\<lparr> g_id = ''12345_2025-08-31'', g_date = ''2025-08-31'', g_gamePk = 12345,
                  g_opponent = ''Cleveland Guardians'', g_side = Home,
                  g_finalScore = Some (10, 2), g_gameStatus = ''Final'',
                  g_players =
                    [\<lparr> hp_name = ''You'',
                       hp_picks =
                         [\<lparr> k_batterId = 1, k_batterName = ''Byron Buxton'',
                            k_mlbId = Some 621439, k_points = 60, k_basePoints = 50,
                            k_boost = 20, k_breakdown = None \<rparr>,
                          \<lparr> k_batterId = 2, k_batterName = ''Batter 2'', k_mlbId = None,
                            k_points = - 5, k_basePoints = - 5, k_boost = 30,
                            k_breakdown = None \<rparr>],
                       hp_totalScore = 200 \<rparr>],
                  g_completedAt = 2 \<rparr>])"
proof -
  have pk: "l_gamePk sampleLineup = l_gamePk sampleLineupLater"
    by (simp add: sampleLineup_def sampleLineupLater_def)
  have day1: "gameDay sampleIsoDay ''2025-09-01'' sampleLineup = Some ''2025-08-31''"
    by (simp add: gameDay_def sampleIsoDay_def sampleLineup_def)
  have day2: "gameDay sampleIsoDay ''2025-08-31'' sampleLineupLater = Some ''2025-08-31''"
    by (simp add: gameDay_def sampleLineupLater_def)
  have once: "length (filter (\<lambda>g. g_id g = gameIdOf sampleLineup ''2025-08-31'')
                (d_games (loadHistoricalData 1 None))) \<le> 1"
    by (simp add: loadHistoricalData_def createEmptyHistoricalData_def)
  have gid: "numberToString (l_gamePk sampleLineupLater) @ ''_'' @ ''2025-08-31''
               = ''12345_2025-08-31''"
    by (simp add: numberToString_def sampleLineupLater_def)
  have two: "numberToString 2 = ''2''"
    by (simp add: numberToString_def)
  show ?thesis
    using pk day1 day2 once
      addGameToHistory_twice_one_entry [OF pk day1 day2 once, of sampleGetTime 2 "samplePlayersWithResults 200" sampleBatters
        "''Final''" "Some (10, 2)" "samplePlayers 155" "[]" "''Live''" None]
    unfolding gid
    by (simp add: samplePlayersWithResults_def sampleResults_def sampleBatters_def sampleLineupLater_def
        two del: digitsOf.simps)
qed

subsection \<open>Best score and best game\<close>

lemma fold_max_ge: "b \<le> fold max xs (b::int)"
proof (induction xs arbitrary: b)
  case Nil
  then show ?case by simp
next
  case (Cons x xs)
  have "b \<le> max x b" by simp
  also have "\<dots> \<le> fold max xs (max x b)" by (rule Cons.IH)
  finally show ?case by simp
qed

lemma fold_max_upper: "x \<in> set xs \<Longrightarrow> x \<le> fold max xs (b::int)"
proof (induction xs arbitrary: b)
  case Nil
  then show ?case by simp
next
  case (Cons y ys)
  show ?case
  proof (cases "x = y")
    case True
    have "x \<le> max y b" using True by simp
    also have "\<dots> \<le> fold max ys (max y b)" by (rule fold_max_ge)
    finally show ?thesis by simp
  next
    case False
    with Cons show ?thesis by simp
  qed
qed

lemma fold_max_cases: "fold max xs (b::int) = b \<or> fold max xs b \<in> set xs"
proof (induction xs arbitrary: b)
  case Nil
  then show ?case by simp
next
  case (Cons y ys)
  from Cons.IH [of "max y b"] show ?case
    by (auto simp: max_def split: if_splits)
qed

text \<open>One game: the best score and the game id after the scan of its players.\<close>

lemma scanPlayers_best:
  "scanBestScore (fold (scanPlayer i) ps sc) = fold max (map hp_totalScore ps) (scanBestScore sc)
   \<and> bestGameId (fold (scanPlayer i) ps sc) =
       (if fold max (map hp_totalScore ps) (scanBestScore sc) > scanBestScore sc then Some i
        else bestGameId sc)"
proof (induction ps arbitrary: sc)
  case Nil
  then show ?case by simp
next
  case (Cons p ps)
  define t where "t = hp_totalScore p"
  define b where "b = scanBestScore sc"
  define m where "m = fold max (map hp_totalScore ps) (max t b)"
  let ?sc1 = "scanPlayer i p sc"
  have b1: "scanBestScore ?sc1 = max t b"
    and i1: "bestGameId ?sc1 = (if t > b then Some i else bestGameId sc)"
    by (simp_all add: scanPlayer_def Let_def max_def t_def b_def)
  have ge: "max t b \<le> m"
    unfolding m_def by (rule fold_max_ge)
  from Cons.IH [of ?sc1]
  have best: "scanBestScore (fold (scanPlayer i) ps ?sc1) = m"
    and gid: "bestGameId (fold (scanPlayer i) ps ?sc1) =
                (if m > max t b then Some i else if t > b then Some i else bestGameId sc)"
    by (simp_all add: b1 i1 m_def)
  have "bestGameId (fold (scanPlayer i) ps ?sc1) = (if m > b then Some i else bestGameId sc)"
    using ge unfolding gid by (cases "t > b") auto
  with best show ?case
    by (simp add: m_def t_def b_def)
qed

lemma scanGame_best:
  "scanBestScore (scanGame g sc) = fold max (map hp_totalScore (g_players g)) (scanBestScore sc)
   \<and> bestGameId (scanGame g sc) =
       (if fold max (map hp_totalScore (g_players g)) (scanBestScore sc) > scanBestScore sc
        then Some (g_id g) else bestGameId sc)"
  unfolding scanGame_def by (rule scanPlayers_best)

lemma allTotals_snoc: "allTotals (gs @ [g]) = allTotals gs @ map hp_totalScore (g_players g)"
  by (simp add: allTotals_def)

lemma scanGames_bestScore:
  "scanBestScore (fold scanGame gs sc) = fold max (allTotals gs) (scanBestScore sc)"
proof (induction gs rule: rev_induct)
  case Nil
  then show ?case by (simp add: allTotals_def)
next
  case (snoc g gs)
  then show ?case
    by (simp add: scanGame_best allTotals_snoc)
qed

lemma reaches_iff: "reaches m g \<longleftrightarrow> m \<in> set (map hp_totalScore (g_players g))"
  by (auto simp: reaches_def list_ex_iff)

lemma reaches_allTotals: "g \<in> set gs \<Longrightarrow> reaches m g \<Longrightarrow> m \<in> set (allTotals gs)"
  by (auto simp: reaches_iff allTotals_def)

lemma find_snoc:
  "find p (xs @ [x]) = (case find p xs of Some y \<Rightarrow> Some y | None \<Rightarrow> if p x then Some x else None)"
  by (induction xs) auto

lemma scanGames_bestGame:
  "bestGameId (fold scanGame gs sc) =
     (if fold max (allTotals gs) (scanBestScore sc) > scanBestScore sc
      then map_option g_id (find (reaches (fold max (allTotals gs) (scanBestScore sc))) gs)
      else bestGameId sc)
   \<and> (fold max (allTotals gs) (scanBestScore sc) > scanBestScore sc \<longrightarrow>
        find (reaches (fold max (allTotals gs) (scanBestScore sc))) gs \<noteq> None)"
proof (induction gs rule: rev_induct)
  case Nil
  then show ?case by (simp add: allTotals_def)
next
  case (snoc g gs)
  define b where "b = scanBestScore sc"
  define m where "m = fold max (allTotals gs) b"
  define m' where "m' = fold max (map hp_totalScore (g_players g)) m"
  let ?mid = "fold scanGame gs sc"
  have mid: "scanBestScore ?mid = m"
    by (simp add: scanGames_bestScore m_def b_def)
  have tot: "fold max (allTotals (gs @ [g])) b = m'"
    by (simp add: allTotals_snoc m'_def m_def)
  have bm: "b \<le> m" unfolding m_def by (rule fold_max_ge)
  have mm: "m \<le> m'" unfolding m'_def by (rule fold_max_ge)
  have step: "bestGameId (fold scanGame (gs @ [g]) sc) =
                (if m' > m then Some (g_id g) else bestGameId ?mid)"
    using scanGame_best [of g ?mid] by (simp add: mid m'_def)
  show ?case
  proof (cases "m' > m")
    case True
    have "m' \<in> set (map hp_totalScore (g_players g))"
      using fold_max_cases [of "map hp_totalScore (g_players g)" m] True
      unfolding m'_def by auto
    then have r: "reaches m' g" by (simp add: reaches_iff)
    have "\<not> reaches m' h" if "h \<in> set gs" for h
    proof
      assume "reaches m' h"
      with that have "m' \<in> set (allTotals gs)" by (rule reaches_allTotals)
      then have "m' \<le> m" unfolding m_def by (rule fold_max_upper)
      with True show False by simp
    qed
    then have "find (reaches m') gs = None"
      by (simp add: find_None_iff)
    with r have "find (reaches m') (gs @ [g]) = Some g"
      by (simp add: find_snoc)
    with True bm step show ?thesis
      unfolding tot b_def [symmetric] by simp
  next
    case False
    with mm have eq: "m' = m" by simp
    from snoc.IH have ih:
      "bestGameId ?mid = (if m > b then map_option g_id (find (reaches m) gs) else bestGameId sc)"
      "m > b \<longrightarrow> find (reaches m) gs \<noteq> None"
      by (simp_all add: m_def b_def)
    show ?thesis
      unfolding tot b_def [symmetric] using ih step eq
      by (auto simp: find_snoc split: option.splits)
  qed
qed

text \<open>
  What the source computes for a non-empty list of games: the best score is the greatest
  of 0 and all totals, and the best game is the first game reaching it when it is
  positive, and missing otherwise.
\<close>

lemma updateHistoricalStats_best:
  assumes "d_games data \<noteq> []"
  shows "bestScore (d_stats (updateHistoricalStats data)) = fold max (allTotals (d_games data)) 0"
    and "bestGame (d_stats (updateHistoricalStats data)) =
           (if fold max (allTotals (d_games data)) 0 > 0
            then map_option g_id
                   (find (reaches (fold max (allTotals (d_games data)) 0)) (d_games data))
            else None)"
  using assms scanGames_bestGame [of "d_games data" initialScan]
  by (simp_all add: updateHistoricalStats_def Let_def scanGames_bestScore initialScan_def)

text \<open>
  When some total is positive, the source computes the maximum total and the first game
  reaching it.
\<close>

lemma fold_max_Max: "fold max xs (b::int) = Max (insert b (set xs))"
  using Max.set_eq_fold [of b xs] by simp

lemma updateHistoricalStats_best_positive:
  assumes "\<exists>t \<in> set (allTotals (d_games data)). 0 < t"
  shows "bestScore (d_stats (updateHistoricalStats data)) = Max (set (allTotals (d_games data)))"
    and "bestGame (d_stats (updateHistoricalStats data)) =
           map_option g_id
             (find (reaches (Max (set (allTotals (d_games data))))) (d_games data))"
proof -
  let ?ts = "allTotals (d_games data)"
  from assms obtain t where t: "t \<in> set ?ts" "0 < t"
    by blast
  then have ne: "d_games data \<noteq> []"
    by (auto simp: allTotals_def)
  have "t \<le> Max (set ?ts)"
    using t(1) by simp
  with t(2) have pos: "0 < Max (set ?ts)"
    by simp
  have "set ?ts \<noteq> {}"
    using t(1) by auto
  then have "Max (insert 0 (set ?ts)) = max 0 (Max (set ?ts))"
    by simp
  with pos have m: "fold max ?ts 0 = Max (set ?ts)"
    by (simp add: fold_max_Max)
  show "bestScore (d_stats (updateHistoricalStats data)) = Max (set ?ts)"
    using updateHistoricalStats_best(1) [OF ne] m by simp
  show "bestGame (d_stats (updateHistoricalStats data)) =
          map_option g_id (find (reaches (Max (set ?ts))) (d_games data))"
    using updateHistoricalStats_best(2) [OF ne] m pos by simp
qed

text \<open>
  C5. After a recomputation over a non-empty list of games, \<open>bestScore\<close> is meant to be
  the maximum total over all players of all games, and \<open>bestGame\<close> the id of the first
  game reaching it. The scan starts from the score 0 and no game, and replaces them only
  by a strictly greater total. For a history of one game whose only player has the total
  -5, the maximum is -5 and the source reports the best score 0 and no best game; when the
  total is 0, the maximum 0 is reached by the game and the source reports no best game.
\<close>

theorem updateHistoricalStats_nonpositive_totals:
  "d_games (sampleHistory (- 5)) \<noteq> []
   \<and> allTotals (d_games (sampleHistory (- 5))) = [- 5]
   \<and> bestScore (d_stats (updateHistoricalStats (sampleHistory (- 5)))) = 0
   \<and> bestGame (d_stats (updateHistoricalStats (sampleHistory (- 5)))) = None
   \<and> allTotals (d_games (sampleHistory 0)) = [0]
   \<and> map_option g_id (find (reaches 0) (d_games (sampleHistory 0)))
       = Some ''12345_2025-08-31''
   \<and> bestScore (d_stats (updateHistoricalStats (sampleHistory 0))) = 0
   \<and> bestGame (d_stats (updateHistoricalStats (sampleHistory 0))) = None"
  by (simp add: sampleHistory_def allTotals_def updateHistoricalStats_def Let_def
      initialScan_def scanGame_def scanPlayer_def reaches_def)

end
